theory Spec2Isabelle
  imports Complex_Main
begin

section \<open>The schema\<close>

text \<open>
  The tables of the migration script, one record per table, one list of rows per table
  (rows in insertion order). An id is held as the string the client passes around (whether
  the database reads a given string as a UUID is \<open>is_uuid\<close>, below); a
  \<open>TIMESTAMPTZ\<close> is a count of instants since some epoch. A \<open>DECIMAL(10,2)\<close> value is
  held as its number of hundredths, so \<open>1500\<close> stands for \<open>15.00\<close>: the scale of two digits
  is then part of the type, and the precision of ten digits is the bound \<open>fits\<close>.
  A JavaScript number that reaches the database is modelled as the exact rational the
  user typed (no NaN, no infinity).
\<close>

type_synonym uuid = string
type_synonym timestamp = nat
type_synonym decimal = int

datatype app_role = admin | operator | viewer

datatype movement_type = entry | exit | adjustment

datatype product_unit = u_un | u_kg | u_l | u_m | u_m2 | u_m3 | u_cx | u_pc

record category =
  c_id :: uuid
  c_name :: string
  c_description :: "string option"
  c_created_at :: timestamp
  c_updated_at :: timestamp

record supplier =
  s_id :: uuid
  s_name :: string
  contact_name :: "string option"
  email :: "string option"
  phone :: "string option"
  address :: "string option"
  s_created_at :: timestamp
  s_updated_at :: timestamp

record product =
  p_id :: uuid
  p_code :: string
  barcode :: "string option"
  p_name :: string
  p_description :: "string option"
  category_id :: "uuid option"
  supplier_id :: "uuid option"
  p_unit :: product_unit
  current_stock :: decimal
  minimum_stock :: decimal
  price :: "decimal option"
  image_url :: "string option"
  batch_control :: "bool option"
  expiration_control :: "bool option"
  p_created_at :: timestamp
  p_updated_at :: timestamp

record stock_movement =
  m_id :: uuid
  product_id :: uuid
  m_type :: movement_type
  quantity :: decimal
  batch_number :: "string option"
  expiration_date :: "string option"
  m_notes :: "string option"
  user_id :: uuid
  m_created_at :: timestamp

record db =
  categories :: "category list"
  suppliers :: "supplier list"
  products :: "product list"
  stock_movements :: "stock_movement list"
  user_roles :: "(uuid \<times> app_role) list"

text \<open>
  What a statement can fail with. \<open>ValidationError\<close> is a zod schema rejecting the form;
  \<open>NotAuthenticated\<close> is the client finding no signed-in user; \<open>Unauthorized\<close> is a
  row-level-security \<open>WITH CHECK\<close> refusing an insert; \<open>NotFound\<close> is a foreign key
  naming a row that does not exist; \<open>UniqueViolation\<close> a primary key or \<open>UNIQUE\<close>
  column taken; \<open>NumericOverflow\<close> a value that does not fit \<open>DECIMAL(10,2)\<close>;
  \<open>StillReferenced\<close> a delete of a row that a foreign key without \<open>ON DELETE\<close> action
  still names; \<open>InvalidSyntax\<close> a string that the database cannot read as the type of
  the column it is meant for (a \<open>UUID\<close>, a \<open>DATE\<close>).
\<close>

datatype error =
  ValidationError | NotAuthenticated | Unauthorized | NotFound
  | UniqueViolation | NumericOverflow | StillReferenced | InvalidSyntax

text \<open>
  The outcome of a statement and the database after it. A failed statement is rolled back
  with everything its triggers did, so the database after it is the one before it: the
  functions below write that out.
\<close>

type_synonym 'a outcome = "(error + 'a) \<times> db"

subsection \<open>\<open>DECIMAL(10,2)\<close>\<close>

definition fits :: "decimal \<Rightarrow> bool" where
  "fits h = (\<bar>h\<bar> < 10000000000)"

text \<open>Storing a number in a \<open>DECIMAL(10,2)\<close> column rounds it to two places, halves away
  from zero, and fails when the result needs more than eight digits before the point.\<close>

definition round_hundredths :: "rat \<Rightarrow> decimal" where
  "round_hundredths x =
     (if 0 \<le> x then \<lfloor>x * 100 + 1 / 2\<rfloor> else - \<lfloor>- x * 100 + 1 / 2\<rfloor>)"

definition numeric_10_2 :: "rat \<Rightarrow> error + decimal" where
  "numeric_10_2 x =
     (let h = round_hundredths x in if fits h then Inr h else Inl NumericOverflow)"

subsection \<open>\<open>UUID\<close> and \<open>DATE\<close>\<close>

text \<open>
  The client sends ids and dates as strings, and the database reads them into \<open>UUID\<close> and
  \<open>DATE\<close> columns (or compares them with one, in a filter on \<open>id\<close>). Which strings it
  accepts is the database's own input syntax; it is a parameter here. A string it does not
  accept fails the statement before anything else is looked at.
\<close>

record pg_syntax =
  is_uuid :: "string \<Rightarrow> bool"
  is_date :: "string \<Rightarrow> bool"

definition uuid_ok :: "pg_syntax \<Rightarrow> string option \<Rightarrow> bool" where
  "uuid_ok pg s = (case s of None \<Rightarrow> True | Some x \<Rightarrow> is_uuid pg x)"

definition date_ok :: "pg_syntax \<Rightarrow> string option \<Rightarrow> bool" where
  "date_ok pg s = (case s of None \<Rightarrow> True | Some x \<Rightarrow> is_date pg x)"

subsection \<open>Roles\<close>

text \<open>\<open>has_role(_user_id, _role)\<close>; \<open>auth.uid()\<close> is \<open>None\<close> for a request without a
  signed-in user, and the policies are granted \<open>TO authenticated\<close> only.\<close>

definition has_role :: "db \<Rightarrow> uuid option \<Rightarrow> app_role \<Rightarrow> bool" where
  "has_role d uid r = (case uid of None \<Rightarrow> False | Some u \<Rightarrow> (u, r) \<in> set (user_roles d))"

definition may_write :: "db \<Rightarrow> uuid option \<Rightarrow> bool" where
  "may_write d uid = (has_role d uid admin \<or> has_role d uid operator)"

section \<open>The stock trigger\<close>

text \<open>
  \<open>UPDATE public.products SET current_stock = f(current_stock) WHERE id = pid\<close>, as the
  trigger function issues it: every row with that id gets the new value, which must fit the
  column; the \<open>BEFORE UPDATE\<close> trigger \<open>update_products_updated_at\<close> stamps the row.
  The function is \<open>SECURITY DEFINER\<close>, so no policy filters the rows.
\<close>

definition set_current_stock ::
  "(decimal \<Rightarrow> decimal) \<Rightarrow> uuid \<Rightarrow> timestamp \<Rightarrow> product list \<Rightarrow> error + product list" where
  "set_current_stock f pid now ps =
     (if list_ex (\<lambda>p. p_id p = pid \<and> \<not> fits (f (current_stock p))) ps
      then Inl NumericOverflow
      else Inr (map (\<lambda>p. if p_id p = pid
                          then p\<lparr>current_stock := f (current_stock p), p_updated_at := now\<rparr>
                          else p) ps))"

text \<open>\<open>update_product_stock()\<close>: the three branches of the \<open>IF\<close> on \<open>NEW.type\<close>.\<close>

definition update_product_stock :: "stock_movement \<Rightarrow> timestamp \<Rightarrow> db \<Rightarrow> error + db" where
  "update_product_stock new now d =
     (case (case m_type new of
              entry \<Rightarrow> set_current_stock (\<lambda>s. s + quantity new) (product_id new) now (products d)
            | exit \<Rightarrow> set_current_stock (\<lambda>s. s - quantity new) (product_id new) now (products d)
            | adjustment \<Rightarrow> set_current_stock (\<lambda>s. quantity new) (product_id new) now (products d))
      of Inl e \<Rightarrow> Inl e
       | Inr ps \<Rightarrow> Inr (d\<lparr>products := ps\<rparr>))"

section \<open>Recording a movement\<close>

text \<open>The row the client sends: \<open>dataToSave\<close> of the movements page.\<close>

record movement_data =
  d_product_id :: uuid
  d_type :: movement_type
  d_quantity :: rat
  d_batch_number :: "string option"
  d_expiration_date :: "string option"
  d_notes :: "string option"
  d_user_id :: uuid

text \<open>
  \<open>INSERT INTO stock_movements\<close> of one row, as one statement: the values are read into
  the types of their columns, in the order of the columns (\<open>product_id UUID\<close>,
  \<open>quantity DECIMAL(10,2)\<close>, \<open>expiration_date DATE\<close>, \<open>user_id UUID\<close>); the insert
  policy wants an admin or operator inserting under their
  own id; \<open>new_id\<close> is what \<open>gen_random_uuid()\<close> drew and \<open>now\<close> what \<open>NOW()\<close> read; the
  primary key must be free. The row is appended, then the \<open>AFTER INSERT\<close> triggers
  run on the table with the row in it: the foreign key to \<open>products\<close> and
  \<open>on_stock_movement_created\<close>. An error in any of them undoes the insert.
\<close>

definition movement_row :: "uuid \<Rightarrow> timestamp \<Rightarrow> decimal \<Rightarrow> movement_data \<Rightarrow> stock_movement" where
  "movement_row new_id now q r =
     \<lparr>m_id = new_id, product_id = d_product_id r, m_type = d_type r,
      quantity = q, batch_number = d_batch_number r,
      expiration_date = d_expiration_date r, m_notes = d_notes r,
      user_id = d_user_id r, m_created_at = now\<rparr>"

definition insert_stock_movement ::
  "pg_syntax \<Rightarrow> uuid option \<Rightarrow> uuid \<Rightarrow> timestamp \<Rightarrow> movement_data \<Rightarrow> db \<Rightarrow> unit outcome" where
  "insert_stock_movement pg uid new_id now r d =
     (if \<not> is_uuid pg (d_product_id r) then (Inl InvalidSyntax, d)
      else case numeric_10_2 (d_quantity r) of
        Inl e \<Rightarrow> (Inl e, d)
      | Inr q \<Rightarrow>
          if \<not> date_ok pg (d_expiration_date r) then (Inl InvalidSyntax, d)
          else if \<not> is_uuid pg (d_user_id r) then (Inl InvalidSyntax, d)
          else if \<not> (may_write d uid \<and> Some (d_user_id r) = uid) then (Inl Unauthorized, d)
          else if list_ex (\<lambda>m. m_id m = new_id) (stock_movements d) then (Inl UniqueViolation, d)
          else
            let new = movement_row new_id now q r;
                d1 = d\<lparr>stock_movements := stock_movements d @ [new]\<rparr>
            in if \<not> list_ex (\<lambda>p. p_id p = product_id new) (products d1) then (Inl NotFound, d)
               else (case update_product_stock new now d1 of
                       Inl e \<Rightarrow> (Inl e, d)
                     | Inr d2 \<Rightarrow> (Inr (), d2)))"

text \<open>The form of the movements page and its schema \<open>movementSchema\<close>.\<close>

record MovementFormValues =
  f_product_id :: string
  f_type :: movement_type
  f_quantity :: rat
  f_batch_number :: "string option"
  f_expiration_date :: "string option"
  f_notes :: "string option"

definition movementSchema :: "MovementFormValues \<Rightarrow> bool" where
  "movementSchema v =
     (1 \<le> length (f_product_id v)
      \<and> 1 / 100 \<le> f_quantity v
      \<and> (case f_batch_number v of None \<Rightarrow> True | Some b \<Rightarrow> length b \<le> 100)
      \<and> (case f_notes v of None \<Rightarrow> True | Some n \<Rightarrow> length n \<le> 500))"

text \<open>\<open>x || null\<close> on an optional string: absent and empty both become \<open>NULL\<close>.\<close>

definition or_null :: "string option \<Rightarrow> string option" where
  "or_null s = (case s of None \<Rightarrow> None | Some x \<Rightarrow> if x = [] then None else Some x)"

text \<open>\<open>saveMutation\<close> of the movements page: the signed-in user is read first, and the
  row goes out under that user's id.\<close>

definition dataToSave_movement :: "uuid \<Rightarrow> MovementFormValues \<Rightarrow> movement_data" where
  "dataToSave_movement u v =
     \<lparr>d_product_id = f_product_id v, d_type = f_type v, d_quantity = f_quantity v,
      d_batch_number = or_null (f_batch_number v),
      d_expiration_date = or_null (f_expiration_date v),
      d_notes = or_null (f_notes v), d_user_id = u\<rparr>"

definition saveMutation_movement ::
  "pg_syntax \<Rightarrow> uuid option \<Rightarrow> uuid \<Rightarrow> timestamp \<Rightarrow> MovementFormValues \<Rightarrow> db
     \<Rightarrow> unit outcome" where
  "saveMutation_movement pg user new_id now v d =
     (case user of
        None \<Rightarrow> (Inl NotAuthenticated, d)
      | Some u \<Rightarrow> insert_stock_movement pg user new_id now (dataToSave_movement u v) d)"

text \<open>Submitting the form: \<open>handleSubmit\<close> runs the schema, and only a form that passes
  reaches \<open>onSubmit\<close>. This is the operation the specification calls \<open>recordMovement\<close>;
  the client asks for no row back, so success carries no value.\<close>

definition recordMovement ::
  "pg_syntax \<Rightarrow> uuid option \<Rightarrow> uuid \<Rightarrow> timestamp \<Rightarrow> MovementFormValues \<Rightarrow> db
     \<Rightarrow> unit outcome" where
  "recordMovement pg user new_id now v d =
     (if movementSchema v then saveMutation_movement pg user new_id now v d
      else (Inl ValidationError, d))"

text \<open>Reading a product by its key.\<close>

definition get_product :: "db \<Rightarrow> uuid \<Rightarrow> product option" where
  "get_product d pid = find (\<lambda>p. p_id p = pid) (products d)"


section \<open>The product form\<close>

text \<open>The form of \<open>ProductDialog\<close> and its schema \<open>productSchema\<close>. The current
  stock is one of its fields, wanted non-negative like the minimum and the price.\<close>

record ProductFormValues =
  v_code :: string
  v_name :: string
  v_description :: "string option"
  v_category_id :: "string option"
  v_supplier_id :: "string option"
  v_unit :: product_unit
  v_minimum_stock :: rat
  v_current_stock :: rat
  v_price :: "rat option"
  v_barcode :: "string option"
  v_batch_control :: bool
  v_expiration_control :: bool

definition productSchema :: "ProductFormValues \<Rightarrow> bool" where
  "productSchema v =
     (1 \<le> length (v_code v) \<and> length (v_code v) \<le> 50
      \<and> 1 \<le> length (v_name v) \<and> length (v_name v) \<le> 200
      \<and> (case v_description v of None \<Rightarrow> True | Some x \<Rightarrow> length x \<le> 1000)
      \<and> 0 \<le> v_minimum_stock v
      \<and> 0 \<le> v_current_stock v
      \<and> (case v_price v of None \<Rightarrow> True | Some x \<Rightarrow> 0 \<le> x)
      \<and> (case v_barcode v of None \<Rightarrow> True | Some x \<Rightarrow> length x \<le> 100))"

text \<open>The columns a save writes, after the database has taken the three numbers into
  \<open>DECIMAL(10,2)\<close>. \<open>values.price || null\<close> sends no price for a price of zero.\<close>

record product_data =
  n_code :: string
  n_name :: string
  n_unit :: product_unit
  n_minimum_stock :: decimal
  n_current_stock :: decimal
  n_batch_control :: bool
  n_expiration_control :: bool
  n_category_id :: "uuid option"
  n_supplier_id :: "uuid option"
  n_description :: "string option"
  n_price :: "decimal option"
  n_barcode :: "string option"

definition dataToSave_product :: "ProductFormValues \<Rightarrow> error + product_data" where
  "dataToSave_product v =
     (case numeric_10_2 (v_minimum_stock v) of
        Inl e \<Rightarrow> Inl e
      | Inr mn \<Rightarrow>
     (case numeric_10_2 (v_current_stock v) of
        Inl e \<Rightarrow> Inl e
      | Inr cur \<Rightarrow>
     (case (case v_price v of
              None \<Rightarrow> Inr None
            | Some x \<Rightarrow> if x = 0 then Inr None
                        else (case numeric_10_2 x of Inl e \<Rightarrow> Inl e | Inr h \<Rightarrow> Inr (Some h))) of
        Inl e \<Rightarrow> Inl e
      | Inr pr \<Rightarrow>
          Inr \<lparr>n_code = v_code v, n_name = v_name v, n_unit = v_unit v,
               n_minimum_stock = mn, n_current_stock = cur,
               n_batch_control = v_batch_control v,
               n_expiration_control = v_expiration_control v,
               n_category_id = or_null (v_category_id v),
               n_supplier_id = or_null (v_supplier_id v),
               n_description = or_null (v_description v),
               n_price = pr, n_barcode = or_null (v_barcode v)\<rparr>)))"

text \<open>The foreign keys of a product row: a category and a supplier, when given, exist.\<close>

definition product_refs_ok :: "db \<Rightarrow> product_data \<Rightarrow> bool" where
  "product_refs_ok d n =
     ((case n_category_id n of None \<Rightarrow> True
        | Some c \<Rightarrow> list_ex (\<lambda>x. c_id x = c) (categories d))
      \<and> (case n_supplier_id n of None \<Rightarrow> True
          | Some s \<Rightarrow> list_ex (\<lambda>x. s_id x = s) (suppliers d)))"

text \<open>The two references of a product row are \<open>UUID\<close> columns.\<close>

definition product_syntax_ok :: "pg_syntax \<Rightarrow> product_data \<Rightarrow> bool" where
  "product_syntax_ok pg n = (uuid_ok pg (n_category_id n) \<and> uuid_ok pg (n_supplier_id n))"

text \<open>\<open>INSERT INTO products\<close>: admins and operators only; the id and the code must be
  free; columns the client does not send take their defaults.\<close>

definition insert_product ::
  "pg_syntax \<Rightarrow> uuid option \<Rightarrow> uuid \<Rightarrow> timestamp \<Rightarrow> product_data \<Rightarrow> db \<Rightarrow> unit outcome" where
  "insert_product pg uid new_id now n d =
     (if \<not> product_syntax_ok pg n then (Inl InvalidSyntax, d)
      else if \<not> may_write d uid then (Inl Unauthorized, d)
      else if list_ex (\<lambda>p. p_id p = new_id \<or> p_code p = n_code n) (products d)
        then (Inl UniqueViolation, d)
      else if \<not> product_refs_ok d n then (Inl NotFound, d)
      else (Inr (),
            d\<lparr>products := products d @
               [\<lparr>p_id = new_id, p_code = n_code n, barcode = n_barcode n, p_name = n_name n,
                 p_description = n_description n, category_id = n_category_id n,
                 supplier_id = n_supplier_id n, p_unit = n_unit n,
                 current_stock = n_current_stock n, minimum_stock = n_minimum_stock n,
                 price = n_price n, image_url = None,
                 batch_control = Some (n_batch_control n),
                 expiration_control = Some (n_expiration_control n),
                 p_created_at = now, p_updated_at = now\<rparr>]\<rparr>))"

text \<open>What \<open>UPDATE products SET ... \<close> makes of one row: the twelve columns of
  \<open>dataToSave\<close>, and the time stamp of the \<open>BEFORE UPDATE\<close> trigger.\<close>

definition write_product :: "product_data \<Rightarrow> timestamp \<Rightarrow> product \<Rightarrow> product" where
  "write_product n now p =
     p\<lparr>p_code := n_code n, p_name := n_name n, p_unit := n_unit n,
       minimum_stock := n_minimum_stock n, current_stock := n_current_stock n,
       batch_control := Some (n_batch_control n),
       expiration_control := Some (n_expiration_control n),
       category_id := n_category_id n, supplier_id := n_supplier_id n,
       p_description := n_description n, price := n_price n, barcode := n_barcode n,
       p_updated_at := now\<rparr>"

text \<open>\<open>UPDATE products SET ... WHERE id = pid\<close>, with \<open>write\<close> the columns it sets: the
  update policy is a \<open>USING\<close> clause, so a user who is neither admin nor operator sees no
  row and updates none, without an error. No movement is written.\<close>

definition update_product_row ::
  "(product_data \<Rightarrow> timestamp \<Rightarrow> product \<Rightarrow> product) \<Rightarrow> pg_syntax \<Rightarrow> uuid option \<Rightarrow> string
     \<Rightarrow> timestamp \<Rightarrow> product_data \<Rightarrow> db \<Rightarrow> unit outcome" where
  "update_product_row write pg uid pid now n d =
     (if \<not> (is_uuid pg pid \<and> product_syntax_ok pg n) then (Inl InvalidSyntax, d)
      else if \<not> may_write d uid \<or> \<not> list_ex (\<lambda>p. p_id p = pid) (products d) then (Inr (), d)
      else if list_ex (\<lambda>p. p_id p \<noteq> pid \<and> p_code p = n_code n) (products d)
        then (Inl UniqueViolation, d)
      else if \<not> product_refs_ok d n then (Inl NotFound, d)
      else (Inr (),
            d\<lparr>products :=
                 map (\<lambda>p. if p_id p = pid then write n now p else p) (products d)\<rparr>))"

definition update_product ::
  "pg_syntax \<Rightarrow> uuid option \<Rightarrow> string \<Rightarrow> timestamp \<Rightarrow> product_data \<Rightarrow> db \<Rightarrow> unit outcome" where
  "update_product = update_product_row write_product"

text \<open>\<open>saveMutation\<close> of \<open>ProductDialog\<close>: an edit when a product id was passed in, a
  create otherwise; both send the same \<open>dataToSave\<close>, the current stock included.\<close>

definition saveMutation_product ::
  "pg_syntax \<Rightarrow> uuid option \<Rightarrow> uuid \<Rightarrow> timestamp \<Rightarrow> string option \<Rightarrow> ProductFormValues \<Rightarrow> db
     \<Rightarrow> unit outcome" where
  "saveMutation_product pg user new_id now productId v d =
     (case dataToSave_product v of
        Inl e \<Rightarrow> (Inl e, d)
      | Inr n \<Rightarrow>
          (case or_null productId of
             Some pid \<Rightarrow> update_product pg user pid now n d
           | None \<Rightarrow> insert_product pg user new_id now n d))"

definition saveProduct ::
  "pg_syntax \<Rightarrow> uuid option \<Rightarrow> uuid \<Rightarrow> timestamp \<Rightarrow> string option \<Rightarrow> ProductFormValues \<Rightarrow> db
     \<Rightarrow> unit outcome" where
  "saveProduct pg user new_id now productId v d =
     (if productSchema v then saveMutation_product pg user new_id now productId v d
      else (Inl ValidationError, d))"

text \<open>\<open>deleteMutation\<close> of the products page: \<open>DELETE FROM products WHERE id = pid\<close>,
  which only an admin's request sees through; \<open>ON DELETE CASCADE\<close> takes the movements
  of a deleted product with it.\<close>

definition deleteProduct :: "pg_syntax \<Rightarrow> uuid option \<Rightarrow> string \<Rightarrow> db \<Rightarrow> unit outcome" where
  "deleteProduct pg user pid d =
     (if \<not> is_uuid pg pid then (Inl InvalidSyntax, d)
      else if \<not> has_role d user admin \<or> \<not> list_ex (\<lambda>p. p_id p = pid) (products d) then (Inr (), d)
      else (Inr (),
            d\<lparr>products := filter (\<lambda>p. p_id p \<noteq> pid) (products d),
              stock_movements := filter (\<lambda>m. product_id m \<noteq> pid) (stock_movements d)\<rparr>))"


section \<open>Categories and suppliers\<close>

text \<open>The two reference tables and their pages: only admins write them, and a row that a
  product still names cannot be deleted (the foreign keys of \<open>products\<close> carry no
  \<open>ON DELETE\<close> action).\<close>

record CategoryFormValues =
  cf_name :: string
  cf_description :: "string option"

definition categorySchema :: "CategoryFormValues \<Rightarrow> bool" where
  "categorySchema v =
     (1 \<le> length (cf_name v) \<and> length (cf_name v) \<le> 100
      \<and> (case cf_description v of None \<Rightarrow> True | Some x \<Rightarrow> length x \<le> 500))"

definition saveCategory ::
  "pg_syntax \<Rightarrow> uuid option \<Rightarrow> uuid \<Rightarrow> timestamp \<Rightarrow> string option \<Rightarrow> CategoryFormValues \<Rightarrow> db
     \<Rightarrow> unit outcome" where
  "saveCategory pg user new_id now selectedCategoryId v d =
     (if \<not> categorySchema v then (Inl ValidationError, d)
      else
        (case or_null selectedCategoryId of
           Some cid \<Rightarrow>
             if \<not> is_uuid pg cid then (Inl InvalidSyntax, d)
             else if \<not> has_role d user admin then (Inr (), d)
             else (Inr (),
                   d\<lparr>categories :=
                        map (\<lambda>c. if c_id c = cid
                                  then c\<lparr>c_name := cf_name v,
                                         c_description := or_null (cf_description v),
                                         c_updated_at := now\<rparr>
                                  else c) (categories d)\<rparr>)
         | None \<Rightarrow>
             if \<not> has_role d user admin then (Inl Unauthorized, d)
             else if list_ex (\<lambda>c. c_id c = new_id) (categories d) then (Inl UniqueViolation, d)
             else (Inr (),
                   d\<lparr>categories := categories d @
                      [\<lparr>c_id = new_id, c_name = cf_name v,
                        c_description = or_null (cf_description v),
                        c_created_at = now, c_updated_at = now\<rparr>]\<rparr>)))"

definition deleteCategory :: "pg_syntax \<Rightarrow> uuid option \<Rightarrow> string \<Rightarrow> db \<Rightarrow> unit outcome" where
  "deleteCategory pg user cid d =
     (if \<not> is_uuid pg cid then (Inl InvalidSyntax, d)
      else if \<not> has_role d user admin \<or> \<not> list_ex (\<lambda>c. c_id c = cid) (categories d) then (Inr (), d)
      else if list_ex (\<lambda>p. category_id p = Some cid) (products d) then (Inl StillReferenced, d)
      else (Inr (), d\<lparr>categories := filter (\<lambda>c. c_id c \<noteq> cid) (categories d)\<rparr>))"

record SupplierFormValues =
  sf_name :: string
  sf_contact_name :: "string option"
  sf_email :: "string option"
  sf_phone :: "string option"
  sf_address :: "string option"

text \<open>\<open>supplierSchema\<close>. What zod takes for an e-mail address is the library's and is a
  parameter here.\<close>

definition supplierSchema :: "(string \<Rightarrow> bool) \<Rightarrow> SupplierFormValues \<Rightarrow> bool" where
  "supplierSchema is_email v =
     (1 \<le> length (sf_name v) \<and> length (sf_name v) \<le> 200
      \<and> (case sf_contact_name v of None \<Rightarrow> True | Some x \<Rightarrow> length x \<le> 100)
      \<and> (case sf_email v of None \<Rightarrow> True
          | Some x \<Rightarrow> (is_email x \<and> length x \<le> 255) \<or> x = [])
      \<and> (case sf_phone v of None \<Rightarrow> True | Some x \<Rightarrow> length x \<le> 20)
      \<and> (case sf_address v of None \<Rightarrow> True | Some x \<Rightarrow> length x \<le> 500))"

definition saveSupplier ::
  "(string \<Rightarrow> bool) \<Rightarrow> pg_syntax \<Rightarrow> uuid option \<Rightarrow> uuid \<Rightarrow> timestamp \<Rightarrow> string option
     \<Rightarrow> SupplierFormValues \<Rightarrow> db \<Rightarrow> unit outcome" where
  "saveSupplier is_email pg user new_id now selectedSupplierId v d =
     (if \<not> supplierSchema is_email v then (Inl ValidationError, d)
      else
        (case or_null selectedSupplierId of
           Some sid \<Rightarrow>
             if \<not> is_uuid pg sid then (Inl InvalidSyntax, d)
             else if \<not> has_role d user admin then (Inr (), d)
             else (Inr (),
                   d\<lparr>suppliers :=
                        map (\<lambda>s. if s_id s = sid
                                  then s\<lparr>s_name := sf_name v,
                                         contact_name := or_null (sf_contact_name v),
                                         email := or_null (sf_email v),
                                         phone := or_null (sf_phone v),
                                         address := or_null (sf_address v),
                                         s_updated_at := now\<rparr>
                                  else s) (suppliers d)\<rparr>)
         | None \<Rightarrow>
             if \<not> has_role d user admin then (Inl Unauthorized, d)
             else if list_ex (\<lambda>s. s_id s = new_id) (suppliers d) then (Inl UniqueViolation, d)
             else (Inr (),
                   d\<lparr>suppliers := suppliers d @
                      [\<lparr>s_id = new_id, s_name = sf_name v,
                        contact_name = or_null (sf_contact_name v),
                        email = or_null (sf_email v), phone = or_null (sf_phone v),
                        address = or_null (sf_address v),
                        s_created_at = now, s_updated_at = now\<rparr>]\<rparr>)))"

definition deleteSupplier :: "pg_syntax \<Rightarrow> uuid option \<Rightarrow> string \<Rightarrow> db \<Rightarrow> unit outcome" where
  "deleteSupplier pg user sid d =
     (if \<not> is_uuid pg sid then (Inl InvalidSyntax, d)
      else if \<not> has_role d user admin \<or> \<not> list_ex (\<lambda>s. s_id s = sid) (suppliers d) then (Inr (), d)
      else if list_ex (\<lambda>p. supplier_id p = Some sid) (products d) then (Inl StillReferenced, d)
      else (Inr (), d\<lparr>suppliers := filter (\<lambda>s. s_id s \<noteq> sid) (suppliers d)\<rparr>))"

section \<open>The dialogs under \<open>packcontrol-pro-main\<close>\<close>

text \<open>The second copy of the application has a movement dialog that is opened for entries
  or for exits, and a product dialog without a field for the current stock.\<close>

datatype dialog_type = dialog_entry | dialog_exit

fun movement_type_of :: "dialog_type \<Rightarrow> movement_type" where
  "movement_type_of dialog_entry = entry"
| "movement_type_of dialog_exit = exit"

record StockMovementForm =
  sm_product_id :: string
  sm_quantity :: rat
  sm_batch_number :: string
  sm_expiration_date :: string
  sm_notes :: string

definition pack_movementSchema :: "StockMovementForm \<Rightarrow> bool" where
  "pack_movementSchema v = (1 \<le> length (sm_product_id v) \<and> 1 / 100 \<le> sm_quantity v)"

definition pack_handleSubmit_movement ::
  "pg_syntax \<Rightarrow> uuid option \<Rightarrow> uuid \<Rightarrow> timestamp \<Rightarrow> dialog_type \<Rightarrow> StockMovementForm \<Rightarrow> db
     \<Rightarrow> unit outcome" where
  "pack_handleSubmit_movement pg user new_id now ty v d =
     (if \<not> pack_movementSchema v then (Inl ValidationError, d)
      else
        (case user of
           None \<Rightarrow> (Inl NotAuthenticated, d)
         | Some u \<Rightarrow>
             insert_stock_movement pg user new_id now
               \<lparr>d_product_id = sm_product_id v, d_type = movement_type_of ty,
                d_quantity = sm_quantity v,
                d_batch_number = or_null (Some (sm_batch_number v)),
                d_expiration_date = or_null (Some (sm_expiration_date v)),
                d_notes = or_null (Some (sm_notes v)), d_user_id = u\<rparr> d))"

record PackProductForm =
  pf_code :: string
  pf_barcode :: string
  pf_name :: string
  pf_description :: string
  pf_category_id :: string
  pf_supplier_id :: string
  pf_unit :: product_unit
  pf_minimum_stock :: rat
  pf_price :: rat

definition pack_productSchema :: "PackProductForm \<Rightarrow> bool" where
  "pack_productSchema v =
     (1 \<le> length (pf_code v) \<and> 3 \<le> length (pf_name v)
      \<and> 0 \<le> pf_minimum_stock v \<and> 0 \<le> pf_price v)"

text \<open>\<open>submitData\<close>: nine columns. The columns it leaves out take their defaults on an
  insert (a current stock of zero, both controls off) and keep their values on an update.\<close>

definition pack_submitData :: "PackProductForm \<Rightarrow> error + product_data" where
  "pack_submitData v =
     (case numeric_10_2 (pf_minimum_stock v) of
        Inl e \<Rightarrow> Inl e
      | Inr mn \<Rightarrow>
     (case (if pf_price v = 0 then Inr None
            else (case numeric_10_2 (pf_price v) of Inl e \<Rightarrow> Inl e | Inr h \<Rightarrow> Inr (Some h))) of
        Inl e \<Rightarrow> Inl e
      | Inr pr \<Rightarrow>
          Inr \<lparr>n_code = pf_code v, n_name = pf_name v, n_unit = pf_unit v,
               n_minimum_stock = mn, n_current_stock = 0,
               n_batch_control = False, n_expiration_control = False,
               n_category_id = or_null (Some (pf_category_id v)),
               n_supplier_id = or_null (Some (pf_supplier_id v)),
               n_description = Some (pf_description v),
               n_price = pr, n_barcode = Some (pf_barcode v)\<rparr>))"

definition pack_write_product :: "product_data \<Rightarrow> timestamp \<Rightarrow> product \<Rightarrow> product" where
  "pack_write_product n now p =
     p\<lparr>p_code := n_code n, barcode := n_barcode n, p_name := n_name n,
       p_description := n_description n, category_id := n_category_id n,
       supplier_id := n_supplier_id n, p_unit := n_unit n,
       minimum_stock := n_minimum_stock n, price := n_price n,
       p_updated_at := now\<rparr>"

definition pack_handleSubmit_product ::
  "pg_syntax \<Rightarrow> uuid option \<Rightarrow> uuid \<Rightarrow> timestamp \<Rightarrow> string option \<Rightarrow> PackProductForm \<Rightarrow> db
     \<Rightarrow> unit outcome" where
  "pack_handleSubmit_product pg user new_id now product v d =
     (if \<not> pack_productSchema v then (Inl ValidationError, d)
      else
        (case pack_submitData v of
           Inl e \<Rightarrow> (Inl e, d)
         | Inr n \<Rightarrow>
             (case product of
                Some pid \<Rightarrow> update_product_row pack_write_product pg user pid now n d
              | None \<Rightarrow> insert_product pg user new_id now n d)))"

section \<open>Every write the application makes\<close>

text \<open>One constructor per mutation that a page of the application sends: the movement
  form, the product form (create and edit), the three delete buttons, the category and
  supplier forms, and the dialogs of the second copy. No page sends an update or a delete
  of \<open>stock_movements\<close>, and the table has no policy that would let one through.\<close>

datatype operation =
  SaveMovement MovementFormValues
  | SaveProduct "string option" ProductFormValues
  | DeleteProduct string
  | SaveCategory "string option" CategoryFormValues
  | DeleteCategory string
  | SaveSupplier "string option" SupplierFormValues
  | DeleteSupplier string
  | PackSaveMovement dialog_type StockMovementForm
  | PackSaveProduct "string option" PackProductForm
  | PackDeleteProduct string

fun perform ::
  "(string \<Rightarrow> bool) \<Rightarrow> pg_syntax \<Rightarrow> uuid option \<Rightarrow> uuid \<Rightarrow> timestamp \<Rightarrow> operation \<Rightarrow> db
     \<Rightarrow> unit outcome" where
  "perform is_email pg user new_id now (SaveMovement v) d =
     recordMovement pg user new_id now v d"
| "perform is_email pg user new_id now (SaveProduct productId v) d =
     saveProduct pg user new_id now productId v d"
| "perform is_email pg user new_id now (DeleteProduct pid) d = deleteProduct pg user pid d"
| "perform is_email pg user new_id now (SaveCategory cid v) d =
     saveCategory pg user new_id now cid v d"
| "perform is_email pg user new_id now (DeleteCategory cid) d = deleteCategory pg user cid d"
| "perform is_email pg user new_id now (SaveSupplier sid v) d =
     saveSupplier is_email pg user new_id now sid v d"
| "perform is_email pg user new_id now (DeleteSupplier sid) d = deleteSupplier pg user sid d"
| "perform is_email pg user new_id now (PackSaveMovement ty v) d =
     pack_handleSubmit_movement pg user new_id now ty v d"
| "perform is_email pg user new_id now (PackSaveProduct product v) d =
     pack_handleSubmit_product pg user new_id now product v d"
| "perform is_email pg user new_id now (PackDeleteProduct pid) d = deleteProduct pg user pid d"

section \<open>The ledger of a product\<close>

text \<open>A call of \<open>recordMovement\<close> with what its environment supplies: the signed-in user,
  the id drawn for the row, the time.\<close>

type_synonym call = "uuid option \<times> uuid \<times> timestamp \<times> MovementFormValues"

text \<open>A sequence of calls, one after the other; a call that fails leaves the database as
  it was and the next one goes on from there.\<close>

fun recordMovements :: "pg_syntax \<Rightarrow> call list \<Rightarrow> db \<Rightarrow> db" where
  "recordMovements pg [] d = d"
| "recordMovements pg ((user, new_id, now, v) # cs) d =
     recordMovements pg cs (snd (recordMovement pg user new_id now v d))"

text \<open>The movements of one product, oldest first.\<close>

definition ledger :: "db \<Rightarrow> uuid \<Rightarrow> stock_movement list" where
  "ledger d pid = filter (\<lambda>m. product_id m = pid) (stock_movements d)"

text \<open>The rule of the specification, in its words: an entry adds its quantity, an exit
  subtracts it, an adjustment replaces the level. The fold of a ledger starts from the
  quantity the product was opened with.\<close>

fun spec_apply :: "decimal \<Rightarrow> stock_movement \<Rightarrow> decimal" where
  "spec_apply s mv =
     (case m_type mv of
        entry \<Rightarrow> s + quantity mv
      | exit \<Rightarrow> s - quantity mv
      | adjustment \<Rightarrow> quantity mv)"

definition spec_fold :: "decimal \<Rightarrow> stock_movement list \<Rightarrow> decimal" where
  "spec_fold opening mvs = foldl spec_apply opening mvs"

section \<open>The dashboard\<close>



text \<open>The aggregates. A query that has not answered yet is \<open>None\<close>, and \<open>|| 0\<close> makes its
  count zero. \<open>toDateString\<close> is the browser's local calendar day of an instant.\<close>

definition lowStockProducts :: "product list option \<Rightarrow> nat" where
  "lowStockProducts ps =
     (case ps of
        None \<Rightarrow> 0
      | Some xs \<Rightarrow> length (filter (\<lambda>p. current_stock p \<le> minimum_stock p) xs))"



text \<open>\<open>getStockStatus\<close> of the products page. Its second test, \<open>current <= minimum * 1.5\<close>,
  multiplies in floating point, and what that gives for two stored quantities is the
  machine's arithmetic: \<open>within_band\<close> stands for it and is a parameter.\<close>

datatype stock_status = Baixo | Atencao | Normal

definition getStockStatus ::
  "(decimal \<Rightarrow> decimal \<Rightarrow> bool) \<Rightarrow> decimal \<Rightarrow> decimal \<Rightarrow> stock_status" where
  "getStockStatus within_band current minimum =
     (if current \<le> minimum then Baixo
      else if within_band current minimum then Atencao
      else Normal)"


section \<open>Notions the properties are stated with\<close>

text \<open>The new level the trigger computes from the old one, by kind.\<close>

definition stock_change :: "movement_type \<Rightarrow> decimal \<Rightarrow> decimal \<Rightarrow> decimal" where
  "stock_change k q s = (case k of entry \<Rightarrow> s + q | exit \<Rightarrow> s - q | adjustment \<Rightarrow> q)"

text \<open>The row a successful \<open>recordMovement\<close> of user \<open>u\<close> appends.\<close>

definition recorded_row :: "uuid \<Rightarrow> uuid \<Rightarrow> timestamp \<Rightarrow> MovementFormValues \<Rightarrow> stock_movement" where
  "recorded_row u new_id now v =
     movement_row new_id now (round_hundredths (f_quantity v)) (dataToSave_movement u v)"

text \<open>The rows that a sequence of calls appends: one for each call that succeeds, in the
  order of the calls.\<close>

fun recorded :: "pg_syntax \<Rightarrow> call list \<Rightarrow> db \<Rightarrow> stock_movement list" where
  "recorded pg [] d = []"
| "recorded pg ((user, new_id, now, v) # cs) d =
     (case (fst (recordMovement pg user new_id now v d), user) of
        (Inr _, Some u) \<Rightarrow>
           recorded_row u new_id now v
             # recorded pg cs (snd (recordMovement pg user new_id now v d))
      | _ \<Rightarrow> recorded pg cs (snd (recordMovement pg user new_id now v d)))"

text \<open>The primary key of \<open>products\<close>.\<close>

definition products_pk :: "db \<Rightarrow> bool" where
  "products_pk d = distinct (map p_id (products d))"

text \<open>The range of quantities the specification allows for a kind.\<close>

definition spec_quantity_allowed :: "movement_type \<Rightarrow> rat \<Rightarrow> bool" where
  "spec_quantity_allowed k q = (case k of entry \<Rightarrow> 0 < q | exit \<Rightarrow> 0 < q | adjustment \<Rightarrow> 0 \<le> q)"

text \<open>The same database with other minimum thresholds, \<open>g\<close> giving the threshold of each
  product.\<close>

definition with_minimum :: "(uuid \<Rightarrow> decimal) \<Rightarrow> db \<Rightarrow> db" where
  "with_minimum g d = d\<lparr>products := map (\<lambda>p. p\<lparr>minimum_stock := g (p_id p)\<rparr>) (products d)\<rparr>"



subsection \<open>Sample data\<close>

text \<open>A reader of ids and dates that stands in for the database's on the sample values
  only. It accepts a UUID in the spelling \<open>8-4-4-4-12\<close> of hexadecimal digits and a date
  of the shape \<open>YYYY-MM-DD\<close>, the spellings the application itself produces; the
  database's own reader knows further spellings and refuses impossible dates. The
  properties hold for every reader.\<close>

definition hex_digit :: "char \<Rightarrow> bool" where
  "hex_digit c = (c \<in> set ''0123456789abcdefABCDEF'')"

definition dec_digit :: "char \<Rightarrow> bool" where
  "dec_digit c = (c \<in> set ''0123456789'')"

definition canonical_uuid :: "string \<Rightarrow> bool" where
  "canonical_uuid s =
     (length s = 36
      \<and> list_all hex_digit (take 8 s) \<and> take 1 (drop 8 s) = ''-''
      \<and> list_all hex_digit (take 4 (drop 9 s)) \<and> take 1 (drop 13 s) = ''-''
      \<and> list_all hex_digit (take 4 (drop 14 s)) \<and> take 1 (drop 18 s) = ''-''
      \<and> list_all hex_digit (take 4 (drop 19 s)) \<and> take 1 (drop 23 s) = ''-''
      \<and> list_all hex_digit (drop 24 s))"

definition iso_date :: "string \<Rightarrow> bool" where
  "iso_date s =
     (length s = 10
      \<and> list_all dec_digit (take 4 s) \<and> take 1 (drop 4 s) = ''-''
      \<and> list_all dec_digit (take 2 (drop 5 s)) \<and> take 1 (drop 7 s) = ''-''
      \<and> list_all dec_digit (drop 8 s))"

definition sample_syntax :: pg_syntax where
  "sample_syntax = \<lparr>is_uuid = canonical_uuid, is_date = iso_date\<rparr>"

text \<open>The ids of the samples: two products, an id that names no product, an operator, an
  admin, and the ids drawn for new rows.\<close>

definition uuid_p1 :: uuid where "uuid_p1 = ''a1111111-1111-4111-8111-111111111111''"
definition uuid_p2 :: uuid where "uuid_p2 = ''b2222222-2222-4222-8222-222222222222''"
definition uuid_p9 :: uuid where "uuid_p9 = ''c9999999-9999-4999-8999-999999999999''"
definition uuid_u1 :: uuid where "uuid_u1 = ''d1111111-1111-4111-8111-111111111111''"
definition uuid_a1 :: uuid where "uuid_a1 = ''e1111111-1111-4111-8111-111111111111''"
definition uuid_n1 :: uuid where "uuid_n1 = ''f1111111-1111-4111-8111-111111111111''"
definition uuid_m1 :: uuid where "uuid_m1 = ''10000000-0000-4000-8000-000000000001''"
definition uuid_m2 :: uuid where "uuid_m2 = ''20000000-0000-4000-8000-000000000002''"
definition uuid_m3 :: uuid where "uuid_m3 = ''30000000-0000-4000-8000-000000000003''"
definition uuid_m4 :: uuid where "uuid_m4 = ''40000000-0000-4000-8000-000000000004''"
definition uuid_m5 :: uuid where "uuid_m5 = ''50000000-0000-4000-8000-000000000005''"
definition uuid_m6 :: uuid where "uuid_m6 = ''60000000-0000-4000-8000-000000000006''"

definition sample_product :: "uuid \<Rightarrow> decimal \<Rightarrow> decimal \<Rightarrow> product" where
  "sample_product pid cur mn =
     \<lparr>p_id = pid, p_code = pid, barcode = None, p_name = ''Caixa'', p_description = None,
      category_id = None, supplier_id = None, p_unit = u_un,
      current_stock = cur, minimum_stock = mn, price = None, image_url = None,
      batch_control = Some False, expiration_control = Some False,
      p_created_at = 0, p_updated_at = 0\<rparr>"

text \<open>One product \<open>p1\<close> at the given level, an operator \<open>u1\<close>, no movement yet.\<close>

definition sample_db :: "decimal \<Rightarrow> db" where
  "sample_db cur =
     \<lparr>categories = [], suppliers = [], products = [sample_product uuid_p1 cur 0],
      stock_movements = [], user_roles = [(uuid_u1, operator)]\<rparr>"

definition sample_form :: "string \<Rightarrow> movement_type \<Rightarrow> rat \<Rightarrow> MovementFormValues" where
  "sample_form pid k q =
     \<lparr>f_product_id = pid, f_type = k, f_quantity = q, f_batch_number = None,
      f_expiration_date = None, f_notes = None\<rparr>"

definition sample_dated_form ::
  "string \<Rightarrow> movement_type \<Rightarrow> rat \<Rightarrow> string \<Rightarrow> MovementFormValues" where
  "sample_dated_form pid k q date = (sample_form pid k q)\<lparr>f_expiration_date := Some date\<rparr>"

definition sample_product_form :: "rat \<Rightarrow> ProductFormValues" where
  "sample_product_form cur =
     \<lparr>v_code = ''CX-1'', v_name = ''Caixa'', v_description = None, v_category_id = None,
      v_supplier_id = None, v_unit = u_un, v_minimum_stock = 0, v_current_stock = cur,
      v_price = None, v_barcode = None, v_batch_control = False,
      v_expiration_control = False\<rparr>"

definition sample_movement :: "uuid \<Rightarrow> movement_type \<Rightarrow> timestamp \<Rightarrow> stock_movement" where
  "sample_movement mid k t =
     \<lparr>m_id = mid, product_id = uuid_p1, m_type = k, quantity = 100, batch_number = None,
      expiration_date = None, m_notes = None, user_id = uuid_u1, m_created_at = t\<rparr>"


text \<open>No product yet, and the operator \<open>u1\<close>.\<close>

definition sample_empty_db :: db where
  "sample_empty_db =
     \<lparr>categories = [], suppliers = [], products = [], stock_movements = [],
      user_roles = [(uuid_u1, operator)]\<rparr>"

text \<open>The operator opens a product \<open>p2\<close> through the product form, with a current stock of
  25.\<close>

definition sample_opened_db :: db where
  "sample_opened_db =
     snd (saveProduct sample_syntax (Some uuid_u1) uuid_p2 1 None (sample_product_form 25)
            sample_empty_db)"

text \<open>Five calls on \<open>p1\<close>; the third does not pass the schema.\<close>

definition sample_calls :: "call list" where
  "sample_calls =
     [(Some uuid_u1, uuid_m1, 1, sample_form uuid_p1 entry 5),
      (Some uuid_u1, uuid_m2, 2, sample_form uuid_p1 exit 3),
      (Some uuid_u1, uuid_m3, 3, sample_form uuid_p1 entry 0),
      (Some uuid_u1, uuid_m4, 4, sample_form uuid_p1 adjustment 50),
      (Some uuid_u1, uuid_m5, 5, sample_form uuid_p1 exit 20)]"

text \<open>Six entries of the same day, recorded at the instants 1 to 6.\<close>

definition sample_recent :: "db" where
  "sample_recent =
     \<lparr>categories = [], suppliers = [], products = [sample_product uuid_p1 1000 0],
      stock_movements =
        [sample_movement uuid_m1 entry 1, sample_movement uuid_m2 entry 2,
         sample_movement uuid_m3 entry 3, sample_movement uuid_m4 entry 4,
         sample_movement uuid_m5 entry 5, sample_movement uuid_m6 entry 6],
      user_roles = [(uuid_u1, operator)]\<rparr>"


text \<open>The same six movements, with an admin \<open>a1\<close> beside the operator.\<close>

definition sample_admin_db :: db where
  "sample_admin_db = sample_recent\<lparr>user_roles := [(uuid_a1, admin), (uuid_u1, operator)]\<rparr>"

section \<open>Lemmas\<close>

subsection \<open>The trigger and the insert\<close>

lemma find_map_upd:
  "find (\<lambda>p. p_id p = x) (map (\<lambda>p. if p_id p = pid then g p else p) ps)
     = map_option (\<lambda>p. if x = pid then g p else p) (find (\<lambda>p. p_id p = x) ps)"
  if "\<And>p. p_id (g p) = p_id p"
  using that by (induction ps) auto

lemma set_current_stock_Inr:
  "set_current_stock f pid now ps = Inr ps' \<longleftrightarrow>
     \<not> list_ex (\<lambda>p. p_id p = pid \<and> \<not> fits (f (current_stock p))) ps
     \<and> ps' = map (\<lambda>p. if p_id p = pid
                          then p\<lparr>current_stock := f (current_stock p), p_updated_at := now\<rparr>
                          else p) ps"
  by (auto simp: set_current_stock_def)

lemma stock_change_fun:
  "stock_change entry q = (\<lambda>s. s + q)"
  "stock_change exit q = (\<lambda>s. s - q)"
  "stock_change adjustment q = (\<lambda>s. q)"
  by (simp_all add: fun_eq_iff stock_change_def)

lemma stock_change_spec_apply: "stock_change (m_type mv) (quantity mv) s = spec_apply s mv"
  by (simp add: stock_change_def)

lemma update_product_stock_alt:
  "update_product_stock new now d =
     (case set_current_stock (stock_change (m_type new) (quantity new)) (product_id new) now
             (products d) of
        Inl e \<Rightarrow> Inl e
      | Inr ps \<Rightarrow> Inr (d\<lparr>products := ps\<rparr>))"
  by (cases "m_type new") (simp_all add: update_product_stock_def stock_change_fun)

lemma movement_row_sel [simp]:
  "m_id (movement_row nid now q r) = nid"
  "product_id (movement_row nid now q r) = d_product_id r"
  "m_type (movement_row nid now q r) = d_type r"
  "quantity (movement_row nid now q r) = q"
  "m_created_at (movement_row nid now q r) = now"
  "user_id (movement_row nid now q r) = d_user_id r"
  by (simp_all add: movement_row_def)

lemma dataToSave_movement_sel [simp]:
  "d_expiration_date (dataToSave_movement u v) = or_null (f_expiration_date v)"
  "d_product_id (dataToSave_movement u v) = f_product_id v"
  "d_type (dataToSave_movement u v) = f_type v"
  "d_quantity (dataToSave_movement u v) = f_quantity v"
  "d_user_id (dataToSave_movement u v) = u"
  by (simp_all add: dataToSave_movement_def)

lemma recorded_row_sel [simp]:
  "m_id (recorded_row u nid now v) = nid"
  "product_id (recorded_row u nid now v) = f_product_id v"
  "m_type (recorded_row u nid now v) = f_type v"
  "quantity (recorded_row u nid now v) = round_hundredths (f_quantity v)"
  "m_created_at (recorded_row u nid now v) = now"
  "user_id (recorded_row u nid now v) = u"
  by (simp_all add: recorded_row_def)

lemma insert_stock_movement_fail:
  "insert_stock_movement pg uid nid now r d = (Inl e, d') \<Longrightarrow> d' = d"
  by (auto simp: insert_stock_movement_def Let_def split: sum.splits if_splits)

lemma insert_stock_movement_Inr:
  "insert_stock_movement pg uid nid now r d = (Inr x, d') \<longleftrightarrow>
     is_uuid pg (d_product_id r) \<and> date_ok pg (d_expiration_date r) \<and> is_uuid pg (d_user_id r)
     \<and> fits (round_hundredths (d_quantity r))
     \<and> may_write d uid \<and> Some (d_user_id r) = uid
     \<and> \<not> list_ex (\<lambda>m. m_id m = nid) (stock_movements d)
     \<and> list_ex (\<lambda>p. p_id p = d_product_id r) (products d)
     \<and> (\<exists>ps. set_current_stock (stock_change (d_type r) (round_hundredths (d_quantity r)))
                 (d_product_id r) now (products d) = Inr ps
           \<and> d' = d\<lparr>stock_movements := stock_movements d
                        @ [movement_row nid now (round_hundredths (d_quantity r)) r],
                     products := ps\<rparr>)"
  by (auto simp: insert_stock_movement_def Let_def numeric_10_2_def update_product_stock_alt
        split: sum.splits if_splits)

lemma recordMovement_fail:
  "recordMovement pg user nid now v d = (Inl e, d') \<Longrightarrow> d' = d"
  by (auto simp: recordMovement_def saveMutation_movement_def
      dest: insert_stock_movement_fail split: option.splits if_splits)

lemma recordMovement_Inr:
  "recordMovement pg user nid now v d = (Inr x, d') \<longleftrightarrow>
     movementSchema v
     \<and> (\<exists>u. user = Some u
          \<and> is_uuid pg (f_product_id v) \<and> date_ok pg (or_null (f_expiration_date v))
          \<and> is_uuid pg u
          \<and> fits (round_hundredths (f_quantity v))
          \<and> may_write d user
          \<and> \<not> list_ex (\<lambda>m. m_id m = nid) (stock_movements d)
          \<and> list_ex (\<lambda>p. p_id p = f_product_id v) (products d)
          \<and> (\<exists>ps. set_current_stock (stock_change (f_type v) (round_hundredths (f_quantity v)))
                 (f_product_id v) now (products d) = Inr ps
           \<and> d' = d\<lparr>stock_movements := stock_movements d @ [recorded_row u nid now v],
                     products := ps\<rparr>))"
  by (auto simp: recordMovement_def saveMutation_movement_def insert_stock_movement_Inr
        recorded_row_def split: option.splits)

text \<open>What a successful call leaves: the row appended, and the products table with the
  trigger's update applied to the rows of that product.\<close>

lemma recordMovement_success:
  assumes "recordMovement pg user nid now v d = (Inr x, d')"
  obtains u where "user = Some u"
    and "stock_movements d' = stock_movements d @ [recorded_row u nid now v]"
    and "products d' =
           map (\<lambda>p. if p_id p = f_product_id v
                     then p\<lparr>current_stock := spec_apply (current_stock p) (recorded_row u nid now v),
                            p_updated_at := now\<rparr>
                     else p) (products d)"
    and "list_ex (\<lambda>p. p_id p = f_product_id v) (products d)"
    and "categories d' = categories d" and "suppliers d' = suppliers d"
    and "user_roles d' = user_roles d"
proof -
  from assms obtain u ps where u: "user = Some u"
    and ex: "list_ex (\<lambda>p. p_id p = f_product_id v) (products d)"
    and ps: "set_current_stock (stock_change (f_type v) (round_hundredths (f_quantity v)))
                 (f_product_id v) now (products d) = Inr ps"
    and d': "d' = d\<lparr>stock_movements := stock_movements d @ [recorded_row u nid now v],
                     products := ps\<rparr>"
    unfolding recordMovement_Inr by blast
  have sc: "stock_change (f_type v) (round_hundredths (f_quantity v)) s
      = spec_apply s (recorded_row u nid now v)" for s
    using stock_change_spec_apply [of "recorded_row u nid now v" s] by simp
  from ps have "ps = map (\<lambda>p. if p_id p = f_product_id v
                     then p\<lparr>current_stock := spec_apply (current_stock p) (recorded_row u nid now v),
                            p_updated_at := now\<rparr>
                     else p) (products d)"
    by (simp add: set_current_stock_Inr sc)
  with u ex d' that show thesis by simp
qed

lemma get_product_after:
  assumes "products d' = map (\<lambda>p. if p_id p = pid then g p else p) (products d)"
    and "\<And>p. p_id (g p) = p_id p"
  shows "get_product d' x = map_option (\<lambda>p. if x = pid then g p else p) (get_product d x)"
  using assms by (simp add: get_product_def find_map_upd)


subsection \<open>Evaluating the samples\<close>

lemma round_hundredths_1 [simp]: "round_hundredths 1 = 100"
  by (simp add: round_hundredths_def floor_eq_iff)

lemma round_hundredths_numeral [simp]: "round_hundredths (numeral k) = numeral k * 100"
  by (simp add: round_hundredths_def floor_eq_iff)

lemma round_hundredths_0 [simp]: "round_hundredths 0 = 0"
  by (simp add: round_hundredths_def floor_eq_iff)

lemma round_hundredths_cent [simp]: "round_hundredths (1 / 100) = 1"
  by (simp add: round_hundredths_def floor_eq_iff)

lemmas run_defs =
  uuid_ok_def date_ok_def recordMovement_def movementSchema_def saveMutation_movement_def insert_stock_movement_def
  numeric_10_2_def fits_def may_write_def has_role_def movement_row_def
  dataToSave_movement_def or_null_def update_product_stock_def set_current_stock_def
  get_product_def Let_def

lemmas sample_ids =
  uuid_p1_def uuid_p2_def uuid_p9_def uuid_u1_def uuid_a1_def uuid_n1_def
  uuid_m1_def uuid_m2_def uuid_m3_def uuid_m4_def uuid_m5_def uuid_m6_def

lemmas sample_defs =
  sample_db_def sample_product_def sample_form_def sample_dated_form_def sample_syntax_def
  canonical_uuid_def iso_date_def hex_digit_def dec_digit_def sample_ids

subsection \<open>What a call does to a product\<close>

lemma recordMovement_effect:
  assumes "recordMovement pg user nid now v d = (Inr x, d')"
  obtains u where "user = Some u"
    and "stock_movements d' = stock_movements d @ [recorded_row u nid now v]"
    and "\<And>pid. get_product d' pid =
           map_option (\<lambda>p. if pid = f_product_id v
                     then p\<lparr>current_stock := spec_apply (current_stock p) (recorded_row u nid now v),
                            p_updated_at := now\<rparr>
                     else p) (get_product d pid)"
proof -
  from assms obtain u where u: "user = Some u"
    and rows: "stock_movements d' = stock_movements d @ [recorded_row u nid now v]"
    and prods: "products d' =
           map (\<lambda>p. if p_id p = f_product_id v
                     then p\<lparr>current_stock := spec_apply (current_stock p) (recorded_row u nid now v),
                            p_updated_at := now\<rparr>
                     else p) (products d)"
    by (rule recordMovement_success)
  show thesis
    by (rule that [OF u rows]) (simp add: get_product_after [OF prods])
qed

lemma get_product_SomeD:
  "get_product d pid = Some p \<Longrightarrow> p \<in> set (products d) \<and> p_id p = pid"
  by (auto simp: get_product_def find_Some_iff)

lemma get_product_None_iff:
  "get_product d pid = None \<longleftrightarrow> \<not> list_ex (\<lambda>p. p_id p = pid) (products d)"
  by (auto simp: get_product_def find_None_iff list_ex_iff)

lemma pk_unique:
  assumes "products_pk d" "get_product d pid = Some p" "q \<in> set (products d)" "p_id q = pid"
  shows "q = p"
proof -
  from assms(2) have "p \<in> set (products d)" "p_id p = pid"
    by (simp_all add: get_product_SomeD)
  moreover from assms(1) have "inj_on p_id (set (products d))"
    by (simp add: products_pk_def distinct_map)
  ultimately show ?thesis using assms(3,4) by (auto dest: inj_onD)
qed

lemma recordMovement_succeeds:
  assumes schema: "movementSchema v" and user: "user = Some u" and role: "may_write d user"
    and wf: "is_uuid pg (f_product_id v)" "date_ok pg (or_null (f_expiration_date v))"
      "is_uuid pg u"
    and fresh: "\<not> list_ex (\<lambda>m. m_id m = nid) (stock_movements d)"
    and pk: "products_pk d" and p: "get_product d (f_product_id v) = Some p"
    and q: "fits (round_hundredths (f_quantity v))"
    and s: "fits (stock_change (f_type v) (round_hundredths (f_quantity v)) (current_stock p))"
  shows "\<exists>d'. recordMovement pg user nid now v d = (Inr (), d')"
proof -
  let ?f = "stock_change (f_type v) (round_hundredths (f_quantity v))"
  have "\<not> list_ex (\<lambda>p. p_id p = f_product_id v \<and> \<not> fits (?f (current_stock p))) (products d)"
    using pk_unique [OF pk p] s by (auto simp: list_ex_iff)
  then have "\<exists>ps. set_current_stock ?f (f_product_id v) now (products d) = Inr ps"
    by (simp add: set_current_stock_Inr)
  moreover from p have "list_ex (\<lambda>p. p_id p = f_product_id v) (products d)"
    using get_product_None_iff [of d "f_product_id v"] by simp
  ultimately show ?thesis
    using schema user role wf fresh q by (auto simp: recordMovement_Inr)
qed

subsection \<open>Sequences of calls\<close>

lemma spec_fold_simps [simp]:
  "spec_fold s [] = s"
  "spec_fold s (mv # mvs) = spec_fold (spec_apply s mv) mvs"
  "spec_fold s (xs @ ys) = spec_fold (spec_fold s xs) ys"
  by (simp_all add: spec_fold_def)

lemma recordMovements_single:
  "stock_movements (recordMovements pg [c] d) = stock_movements d @ recorded pg [c] d"
  "get_product d pid = Some p \<Longrightarrow>
     \<exists>p'. get_product (recordMovements pg [c] d) pid = Some p'
        \<and> current_stock p' =
            spec_fold (current_stock p) (filter (\<lambda>m. product_id m = pid) (recorded pg [c] d))"
proof -
  obtain user nid now v where c: "c = (user, nid, now, v)" by (cases c)
  obtain r d' where run: "recordMovement pg user nid now v d = (r, d')"
    by (cases "recordMovement pg user nid now v d")
  have "stock_movements d' = stock_movements d @ recorded pg [c] d
      \<and> (get_product d pid = Some p \<longrightarrow>
     (\<exists>p'. get_product d' pid = Some p'
        \<and> current_stock p' =
            spec_fold (current_stock p) (filter (\<lambda>m. product_id m = pid) (recorded pg [c] d))))"
  proof (cases r)
    case (Inl e)
    with run have "d' = d" by (auto dest: recordMovement_fail)
    with run Inl show ?thesis by (simp add: c split: option.splits)
  next
    case (Inr x)
    with run have ok: "recordMovement pg user nid now v d = (Inr x, d')" by simp
    then obtain u where "user = Some u"
      "stock_movements d' = stock_movements d @ [recorded_row u nid now v]"
      "\<And>pid. get_product d' pid =
           map_option (\<lambda>p. if pid = f_product_id v
                     then p\<lparr>current_stock := spec_apply (current_stock p) (recorded_row u nid now v),
                            p_updated_at := now\<rparr>
                     else p) (get_product d pid)"
      by (rule recordMovement_effect) (rule that)
    with ok show ?thesis by (auto simp: c)
  qed
  with run show
    "stock_movements (recordMovements pg [c] d) = stock_movements d @ recorded pg [c] d"
    "get_product d pid = Some p \<Longrightarrow>
     \<exists>p'. get_product (recordMovements pg [c] d) pid = Some p'
        \<and> current_stock p' =
            spec_fold (current_stock p) (filter (\<lambda>m. product_id m = pid) (recorded pg [c] d))"
    by (simp_all add: c)
qed

lemma recorded_Cons:
  "recorded pg (c # cs) d = recorded pg [c] d @ recorded pg cs (recordMovements pg [c] d)"
  by (cases c) (auto split: sum.splits option.splits)

lemma recordMovements_Cons:
  "recordMovements pg (c # cs) d = recordMovements pg cs (recordMovements pg [c] d)"
  by (cases c) simp

lemma recordMovements_rows:
  "stock_movements (recordMovements pg cs d) = stock_movements d @ recorded pg cs d"
proof (induction cs arbitrary: d)
  case Nil
  show ?case by simp
next
  case (Cons c cs)
  have "stock_movements (recordMovements pg (c # cs) d)
      = stock_movements (recordMovements pg [c] d) @ recorded pg cs (recordMovements pg [c] d)"
    using Cons.IH [of "recordMovements pg [c] d"] by (simp only: recordMovements_Cons [of pg c cs])
  also have "stock_movements (recordMovements pg [c] d) = stock_movements d @ recorded pg [c] d"
    by (rule recordMovements_single)
  finally show ?case by (simp only: recorded_Cons [of pg c cs] append_assoc)
qed

lemma recordMovements_level:
  "get_product d pid = Some p \<Longrightarrow>
     \<exists>p'. get_product (recordMovements pg cs d) pid = Some p'
        \<and> current_stock p' =
            spec_fold (current_stock p) (filter (\<lambda>m. product_id m = pid) (recorded pg cs d))"
proof (induction cs arbitrary: d p)
  case Nil
  then show ?case by simp
next
  case (Cons c cs)
  let ?d1 = "recordMovements pg [c] d"
  from recordMovements_single(2) [OF Cons.prems, of pg c]
  obtain p1 where p1: "get_product ?d1 pid = Some p1"
    "current_stock p1 =
       spec_fold (current_stock p) (filter (\<lambda>m. product_id m = pid) (recorded pg [c] d))"
    by blast
  from Cons.IH [OF p1(1)] obtain p' where
    "get_product (recordMovements pg cs ?d1) pid = Some p'"
    "current_stock p' =
       spec_fold (current_stock p1) (filter (\<lambda>m. product_id m = pid) (recorded pg cs ?d1))"
    by blast
  with p1(2) show ?case
    by (simp only: recorded_Cons [of pg c cs] recordMovements_Cons [of pg c cs] filter_append
          spec_fold_simps) simp
qed

subsection \<open>Which errors can come from where\<close>

lemma update_product_stock_Inl:
  "update_product_stock new now d = Inl e \<Longrightarrow> e = NumericOverflow"
  by (auto simp: update_product_stock_alt set_current_stock_def split: sum.splits if_splits)

lemma recordMovement_ValidationError:
  "fst (recordMovement pg user nid now v d) = Inl ValidationError \<longleftrightarrow> \<not> movementSchema v"
  by (auto simp: recordMovement_def saveMutation_movement_def insert_stock_movement_def
        numeric_10_2_def Let_def dest: update_product_stock_Inl
        split: option.splits sum.splits)

subsection \<open>Other thresholds\<close>

lemma set_current_stock_with_minimum:
  "set_current_stock f pid now (map (\<lambda>p. p\<lparr>minimum_stock := g (p_id p)\<rparr>) ps)
     = (case set_current_stock f pid now ps of
          Inl e \<Rightarrow> Inl e
        | Inr ps' \<Rightarrow> Inr (map (\<lambda>p. p\<lparr>minimum_stock := g (p_id p)\<rparr>) ps'))"
  by (simp add: set_current_stock_def list_ex_iff)

lemma with_minimum_sel [simp]:
  "may_write (with_minimum g d) uid = may_write d uid"
  "stock_movements (with_minimum g d) = stock_movements d"
  "list_ex (\<lambda>p. p_id p = x) (products (with_minimum g d)) = list_ex (\<lambda>p. p_id p = x) (products d)"
  "(with_minimum g d)\<lparr>stock_movements := ms\<rparr> = with_minimum g (d\<lparr>stock_movements := ms\<rparr>)"
  by (simp_all add: with_minimum_def may_write_def has_role_def list_ex_iff
        split: option.splits)

lemma update_product_stock_with_minimum:
  "update_product_stock new now (with_minimum g d)
     = (case update_product_stock new now d of
          Inl e \<Rightarrow> Inl e
        | Inr d' \<Rightarrow> Inr (with_minimum g d'))"
  by (simp add: update_product_stock_alt set_current_stock_with_minimum with_minimum_def
        split: sum.splits)

lemma insert_stock_movement_with_minimum:
  "insert_stock_movement pg uid nid now r (with_minimum g d)
     = (fst (insert_stock_movement pg uid nid now r d),
        with_minimum g (snd (insert_stock_movement pg uid nid now r d)))"
  by (simp add: insert_stock_movement_def Let_def update_product_stock_with_minimum
        split: sum.splits)

lemma recordMovement_with_minimum:
  "recordMovement pg user nid now v (with_minimum g d)
     = (fst (recordMovement pg user nid now v d),
        with_minimum g (snd (recordMovement pg user nid now v d)))"
  by (simp add: recordMovement_def saveMutation_movement_def insert_stock_movement_with_minimum
        split: option.splits)

subsection \<open>The five newest rows\<close>



subsection \<open>What each write touches\<close>

lemma insert_stock_movement_cases:
  assumes "insert_stock_movement pg uid nid now r d = (res, d')"
  shows "d' = d
       \<or> (\<exists>mv. stock_movements d' = stock_movements d @ [mv]
              \<and> product_id mv = d_product_id r
              \<and> products d' =
                  map (\<lambda>p. if p_id p = d_product_id r
                            then p\<lparr>current_stock := spec_apply (current_stock p) mv,
                                   p_updated_at := now\<rparr>
                            else p) (products d))"
proof (cases res)
  case (Inl e)
  with assms show ?thesis by (auto dest: insert_stock_movement_fail)
next
  case (Inr x)
  let ?mv = "movement_row nid now (round_hundredths (d_quantity r)) r"
  have sc: "stock_change (d_type r) (round_hundredths (d_quantity r)) s = spec_apply s ?mv" for s
    using stock_change_spec_apply [of ?mv s] by simp
  from assms Inr have "stock_movements d' = stock_movements d @ [?mv]
              \<and> product_id ?mv = d_product_id r
              \<and> products d' =
                  map (\<lambda>p. if p_id p = d_product_id r
                            then p\<lparr>current_stock := spec_apply (current_stock p) ?mv,
                                   p_updated_at := now\<rparr>
                            else p) (products d)"
    by (auto simp: insert_stock_movement_Inr set_current_stock_Inr sc)
  then show ?thesis by blast
qed

lemma update_product_row_cases:
  assumes "update_product_row w pg uid pid now n d = (res, d')"
  shows "stock_movements d' = stock_movements d
       \<and> (d' = d \<or> products d' = map (\<lambda>p. if p_id p = pid then w n now p else p) (products d))"
  using assms by (auto simp: update_product_row_def split: if_splits)

lemma insert_product_cases:
  assumes "insert_product pg uid nid now n d = (res, d')"
  shows "stock_movements d' = stock_movements d
       \<and> (d' = d
          \<or> (res = Inr () \<and> \<not> list_ex (\<lambda>p. p_id p = nid) (products d)
             \<and> (\<exists>row. products d' = products d @ [row] \<and> p_id row = nid
                    \<and> current_stock row = n_current_stock n)))"
  using assms by (auto simp: insert_product_def list_ex_iff split: if_splits)

lemma deleteProduct_cases:
  assumes "deleteProduct pg user pid d = (res, d')"
  shows "d' = d
       \<or> (list_ex (\<lambda>p. p_id p = pid) (products d)
          \<and> products d' = filter (\<lambda>p. p_id p \<noteq> pid) (products d)
          \<and> stock_movements d' = filter (\<lambda>m. product_id m \<noteq> pid) (stock_movements d))"
  using assms by (auto simp: deleteProduct_def split: if_splits)

lemma other_tables_frame:
  "saveCategory pg user nid now cid cv d = (res, d')
     \<Longrightarrow> products d' = products d \<and> stock_movements d' = stock_movements d"
  "deleteCategory pg user c d = (res, d')
     \<Longrightarrow> products d' = products d \<and> stock_movements d' = stock_movements d"
  "saveSupplier is_email pg user nid now sid sv d = (res, d')
     \<Longrightarrow> products d' = products d \<and> stock_movements d' = stock_movements d"
  "deleteSupplier pg user s d = (res, d')
     \<Longrightarrow> products d' = products d \<and> stock_movements d' = stock_movements d"
  by (auto simp: saveCategory_def deleteCategory_def saveSupplier_def deleteSupplier_def
        split: if_splits option.splits)


lemma write_product_sel [simp]:
  "p_id (write_product n now p) = p_id p"
  "current_stock (write_product n now p) = n_current_stock n"
  "p_id (pack_write_product n now p) = p_id p"
  "current_stock (pack_write_product n now p) = current_stock p"
  by (simp_all add: write_product_def pack_write_product_def)









section \<open>Properties\<close>

text \<open>
  C1, as the specification has it, wants the stored quantity to equal a recomputation from
  the ledger alone. A product opened through the product form at 25.00 and given one entry
  of 5 stands at 30.00, while its whole ledger, folded from nothing, gives 5.00.
\<close>

theorem fold_correctness_counterexample:
  "map p_id
     (products (recordMovements sample_syntax
                  [(Some uuid_u1, uuid_m1, 2, sample_form uuid_p2 entry 5)] sample_opened_db))
     = [uuid_p2]
   \<and> map current_stock
         (products (recordMovements sample_syntax
                      [(Some uuid_u1, uuid_m1, 2, sample_form uuid_p2 entry 5)] sample_opened_db))
       = [3000]
   \<and> map quantity
         (ledger (recordMovements sample_syntax
                    [(Some uuid_u1, uuid_m1, 2, sample_form uuid_p2 entry 5)] sample_opened_db)
            uuid_p2)
       = [500]
   \<and> spec_fold 0
         (ledger (recordMovements sample_syntax
                    [(Some uuid_u1, uuid_m1, 2, sample_form uuid_p2 entry 5)] sample_opened_db)
            uuid_p2)
       = 500"
  by (simp add: sample_opened_db_def sample_empty_db_def sample_product_form_def
        saveProduct_def productSchema_def saveMutation_product_def dataToSave_product_def
        insert_product_def product_syntax_ok_def product_refs_ok_def ledger_def
        run_defs sample_defs)

text \<open>
  C1, amended. Take any product and any sequence of calls of \<open>recordMovement\<close>, run one
  after the other. The ledger grows by exactly the rows of the calls that succeeded, in
  their order, and the current quantity of the product afterwards is the fold of the
  three-case rule over those of the new rows that name the product, started from the
  quantity before the sequence. A recomputation from the whole ledger reproduces the
  stored quantity when it starts from the quantity the product was opened with, which the
  ledger does not hold: whenever the quantity before the sequence was the fold of the
  product's ledger from an opening quantity, the quantity after it is the fold of the
  grown ledger from the same opening quantity; and for a product whose ledger is still
  empty, that opening quantity is the quantity it stands at.
\<close>

theorem fold_correctness:
  assumes "get_product d pid = Some p"
  shows "stock_movements (recordMovements pg cs d) = stock_movements d @ recorded pg cs d
     \<and> (\<exists>p'. get_product (recordMovements pg cs d) pid = Some p'
          \<and> current_stock p' =
              spec_fold (current_stock p) (filter (\<lambda>m. product_id m = pid) (recorded pg cs d))
          \<and> (\<forall>opening. current_stock p = spec_fold opening (ledger d pid)
                \<longrightarrow> current_stock p' = spec_fold opening (ledger (recordMovements pg cs d) pid))
          \<and> (ledger d pid = []
                \<longrightarrow> current_stock p'
                     = spec_fold (current_stock p) (ledger (recordMovements pg cs d) pid)))"
proof -
  from recordMovements_level [OF assms, of pg cs] obtain p' where
    p': "get_product (recordMovements pg cs d) pid = Some p'"
    "current_stock p' =
       spec_fold (current_stock p) (filter (\<lambda>m. product_id m = pid) (recorded pg cs d))"
    by blast
  have "ledger (recordMovements pg cs d) pid
      = ledger d pid @ filter (\<lambda>m. product_id m = pid) (recorded pg cs d)"
    by (simp add: ledger_def recordMovements_rows)
  with p' show ?thesis
    by (simp add: recordMovements_rows)
qed

text \<open>The five sample calls on a product opened at 10.00 with an empty ledger: four rows
  are recorded, the quantity ends at 30.00, and so does the fold of the ledger from
  10.00.\<close>

theorem fold_correctness_witness:
  "\<exists>p'. get_product (recordMovements sample_syntax sample_calls (sample_db 1000)) uuid_p1 = Some p'
      \<and> map (\<lambda>mv. (m_type mv, quantity mv)) (recorded sample_syntax sample_calls (sample_db 1000))
          = [(entry, 500), (exit, 300), (adjustment, 5000), (exit, 2000)]
      \<and> current_stock p' = 3000
      \<and> spec_fold 1000 (ledger (recordMovements sample_syntax sample_calls (sample_db 1000)) uuid_p1)
          = 3000"
proof -
  have g0: "get_product (sample_db 1000) uuid_p1 = Some (sample_product uuid_p1 1000 0)"
    by (simp add: get_product_def sample_defs)
  have rec: "map (\<lambda>mv. (m_type mv, quantity mv)) (recorded sample_syntax sample_calls (sample_db 1000))
          = [(entry, 500), (exit, 300), (adjustment, 5000), (exit, 2000)]"
    by (simp add: sample_calls_def run_defs sample_defs recorded_row_def)
  have ev: "spec_fold (current_stock (sample_product uuid_p1 1000 0))
              (filter (\<lambda>m. product_id m = uuid_p1)
                 (recorded sample_syntax sample_calls (sample_db 1000)))
            = 3000"
    by (simp add: sample_calls_def run_defs sample_defs recorded_row_def)
  have l0: "ledger (sample_db 1000) uuid_p1 = []"
    "current_stock (sample_product uuid_p1 1000 0) = 1000"
    by (simp_all add: ledger_def sample_db_def sample_product_def)
  from fold_correctness [OF g0, of sample_syntax sample_calls] obtain p' where
    "get_product (recordMovements sample_syntax sample_calls (sample_db 1000)) uuid_p1 = Some p'"
    "current_stock p' = 3000"
    "current_stock p'
       = spec_fold 1000 (ledger (recordMovements sample_syntax sample_calls (sample_db 1000)) uuid_p1)"
    using ev l0 by auto
  with rec show ?thesis by auto
qed

text \<open>
  C2. A recorded movement on a product changes the current quantity by its kind: an entry
  adds the quantity of the movement, an exit subtracts it, an adjustment replaces the
  level by it. The quantity of the movement is the one stored in the ledger row, which is
  the submitted number at two decimal places.
\<close>

theorem movement_applies_by_kind:
  assumes "recordMovement pg user nid now v d = (Inr x, d')"
    and "get_product d (f_product_id v) = Some p"
  shows "\<exists>mv p'. stock_movements d' = stock_movements d @ [mv]
      \<and> product_id mv = f_product_id v \<and> m_type mv = f_type v
      \<and> quantity mv = round_hundredths (f_quantity v)
      \<and> get_product d' (f_product_id v) = Some p'
      \<and> current_stock p' =
           (case m_type mv of
              entry \<Rightarrow> current_stock p + quantity mv
            | exit \<Rightarrow> current_stock p - quantity mv
            | adjustment \<Rightarrow> quantity mv)"
proof -
  from assms(1) obtain u where
    rows: "stock_movements d' = stock_movements d @ [recorded_row u nid now v]"
    and prods: "products d' =
           map (\<lambda>p. if p_id p = f_product_id v
                     then p\<lparr>current_stock := spec_apply (current_stock p) (recorded_row u nid now v),
                            p_updated_at := now\<rparr>
                     else p) (products d)"
    by (rule recordMovement_success)
  let ?mv = "recorded_row u nid now v"
  let ?p' = "p\<lparr>current_stock := spec_apply (current_stock p) ?mv, p_updated_at := now\<rparr>"
  have "get_product d' (f_product_id v) = Some ?p'"
    using get_product_after [OF prods, of "f_product_id v"] assms(2) by simp
  moreover have "current_stock ?p' =
           (case m_type ?mv of
              entry \<Rightarrow> current_stock p + quantity ?mv
            | exit \<Rightarrow> current_stock p - quantity ?mv
            | adjustment \<Rightarrow> quantity ?mv)"
    by simp
  ultimately show ?thesis using rows
    by (intro exI [of _ ?mv] exI [of _ ?p']) simp
qed

text \<open>The runs of the specification: from 10.00 an entry of 5 gives 15.00 and then an
  exit of 3 gives 12.00; an adjustment of 50 at 120.00 gives 50.00.\<close>

theorem movement_applies_by_kind_witness:
  "(\<exists>d1 p1. recordMovement sample_syntax (Some uuid_u1) uuid_m1 1 (sample_form uuid_p1 entry 5) (sample_db 1000)
               = (Inr (), d1)
        \<and> get_product d1 uuid_p1 = Some p1 \<and> current_stock p1 = 1500
        \<and> (\<exists>d2 p2. recordMovement sample_syntax (Some uuid_u1) uuid_m2 2 (sample_form uuid_p1 exit 3) d1
                      = (Inr (), d2)
               \<and> get_product d2 uuid_p1 = Some p2 \<and> current_stock p2 = 1200))
   \<and> (\<exists>d3 p3. recordMovement sample_syntax (Some uuid_u1) uuid_m1 1 (sample_form uuid_p1 adjustment 50)
                  (sample_db 12000) = (Inr (), d3)
          \<and> get_product d3 uuid_p1 = Some p3 \<and> current_stock p3 = 5000)"
proof -
  define d1 where
    "d1 = snd (recordMovement sample_syntax (Some uuid_u1) uuid_m1 1 (sample_form uuid_p1 entry 5) (sample_db 1000))"
  define d2 where
    "d2 = snd (recordMovement sample_syntax (Some uuid_u1) uuid_m2 2 (sample_form uuid_p1 exit 3) d1)"
  define d3 where
    "d3 = snd (recordMovement sample_syntax (Some uuid_u1) uuid_m1 1 (sample_form uuid_p1 adjustment 50)
                 (sample_db 12000))"
  have r1: "recordMovement sample_syntax (Some uuid_u1) uuid_m1 1 (sample_form uuid_p1 entry 5) (sample_db 1000)
              = (Inr (), d1)"
    by (simp add: d1_def prod_eq_iff run_defs sample_defs)
  have r2: "recordMovement sample_syntax (Some uuid_u1) uuid_m2 2 (sample_form uuid_p1 exit 3) d1 = (Inr (), d2)"
    by (simp add: d2_def d1_def prod_eq_iff run_defs sample_defs)
  have r3: "recordMovement sample_syntax (Some uuid_u1) uuid_m1 1 (sample_form uuid_p1 adjustment 50)
              (sample_db 12000) = (Inr (), d3)"
    by (simp add: d3_def prod_eq_iff run_defs sample_defs)
  have g0: "get_product (sample_db c) (f_product_id (sample_form uuid_p1 k q))
              = Some (sample_product uuid_p1 c 0)" for c k q
    by (simp add: get_product_def sample_defs)
  from movement_applies_by_kind [OF r1 g0] obtain p1 where
    p1: "get_product d1 uuid_p1 = Some p1" "current_stock p1 = 1500"
    by (auto simp: sample_defs)
  from p1(1) have g1: "get_product d1 (f_product_id (sample_form uuid_p1 exit 3)) = Some p1"
    by (simp add: sample_form_def)
  from movement_applies_by_kind [OF r2 g1] p1(2) obtain p2 where
    p2: "get_product d2 uuid_p1 = Some p2" "current_stock p2 = 1200"
    by (auto simp: sample_defs)
  from movement_applies_by_kind [OF r3 g0] obtain p3 where
    p3: "get_product d3 uuid_p1 = Some p3" "current_stock p3 = 5000"
    by (auto simp: sample_defs)
  from r1 r2 r3 p1 p2 p3 show ?thesis by blast
qed

text \<open>
  C3. A call of \<open>recordMovement\<close> is all or nothing. If it fails, for whatever reason, the
  database after it is the database before it: no ledger row, no change of any quantity.
  If it succeeds, exactly one row has been appended to the ledger and the product it names
  (which exists) has had its quantity updated by that row. So no row is there without its
  update, and no update without its row.
\<close>


theorem recordMovement_all_or_nothing:
  assumes "recordMovement pg user nid now v d = (r, d')"
  shows "(\<exists>e. r = Inl e \<and> d' = d)
       \<or> (r = Inr ()
          \<and> (\<exists>mv. stock_movements d' = stock_movements d @ [mv]
                \<and> product_id mv = f_product_id v
                \<and> list_ex (\<lambda>p. p_id p = product_id mv) (products d)
                \<and> products d' =
                    map (\<lambda>p. if p_id p = product_id mv
                              then p\<lparr>current_stock := spec_apply (current_stock p) mv,
                                     p_updated_at := now\<rparr>
                              else p) (products d)))"
proof (cases r)
  case (Inl e)
  with assms show ?thesis by (auto dest: recordMovement_fail)
next
  case (Inr x)
  with assms have "recordMovement pg user nid now v d = (Inr x, d')" by simp
  then obtain u where
    "stock_movements d' = stock_movements d @ [recorded_row u nid now v]"
    "products d' =
           map (\<lambda>p. if p_id p = f_product_id v
                     then p\<lparr>current_stock := spec_apply (current_stock p) (recorded_row u nid now v),
                            p_updated_at := now\<rparr>
                     else p) (products d)"
    "list_ex (\<lambda>p. p_id p = f_product_id v) (products d)"
    by (rule recordMovement_success)
  with Inr show ?thesis
    by (intro disjI2 conjI exI [of _ "recorded_row u nid now v"]) simp_all
qed

text \<open>A failure inside the trigger, after the row was inserted: an entry that would take
  the level beyond \<open>DECIMAL(10,2)\<close>. The row is gone with the rest.\<close>

theorem recordMovement_all_or_nothing_witness:
  "recordMovement sample_syntax (Some uuid_u1) uuid_m1 1 (sample_form uuid_p1 entry 1) (sample_db 9999999999)
     = (Inl NumericOverflow, sample_db 9999999999)"
proof -
  let ?c = "recordMovement sample_syntax (Some uuid_u1) uuid_m1 1 (sample_form uuid_p1 entry 1) (sample_db 9999999999)"
  have f: "fst ?c = Inl NumericOverflow"
    by (simp add: run_defs sample_defs)
  have "?c = (fst ?c, snd ?c)" by simp
  from recordMovement_all_or_nothing [OF this] f have "snd ?c = sample_db 9999999999"
    by auto
  with f show ?thesis by (simp add: prod_eq_iff)
qed

text \<open>
  C5. An exit is applied without a floor check. Whenever the call is otherwise in order (a
  form that passes the schema, a product id and a user id that are UUIDs, an expiration
  date, if any, that is a date, a signed-in admin or operator, a free row id, an existing
  product) and the numbers fit \<open>DECIMAL(10,2)\<close>, the exit is accepted and leaves the old
  level minus the quantity, whatever the sign of the result: at 2.00 an exit of 5 leaves
  -3.00.
\<close>

theorem exit_has_no_floor:
  assumes "movementSchema v" and "f_type v = exit"
    and "user = Some u" and "may_write d user"
    and "is_uuid pg (f_product_id v)" and "date_ok pg (or_null (f_expiration_date v))"
    and "is_uuid pg u"
    and "\<not> list_ex (\<lambda>m. m_id m = nid) (stock_movements d)"
    and "products_pk d" and "get_product d (f_product_id v) = Some p"
    and "fits (round_hundredths (f_quantity v))"
    and "fits (current_stock p - round_hundredths (f_quantity v))"
  shows "\<exists>d' p'. recordMovement pg user nid now v d = (Inr (), d')
           \<and> get_product d' (f_product_id v) = Some p'
           \<and> current_stock p' = current_stock p - round_hundredths (f_quantity v)"
proof -
  from assms(2,12)
  have "fits (stock_change (f_type v) (round_hundredths (f_quantity v)) (current_stock p))"
    by (simp add: stock_change_def)
  with assms have "\<exists>d'. recordMovement pg user nid now v d = (Inr (), d')"
    by (intro recordMovement_succeeds)
  then obtain d' where run: "recordMovement pg user nid now v d = (Inr (), d')" ..
  from run obtain u' where
    "\<And>pid. get_product d' pid =
           map_option (\<lambda>p. if pid = f_product_id v
                     then p\<lparr>current_stock := spec_apply (current_stock p) (recorded_row u' nid now v),
                            p_updated_at := now\<rparr>
                     else p) (get_product d pid)"
    by (rule recordMovement_effect) (rule that)
  with run assms(2,10) show ?thesis by simp
qed

text \<open>At 2.00, an exit of 5 is accepted and leaves -3.00, with or without an expiration
  date; with a text in the date field that is no date, the insert is refused and nothing
  is recorded.\<close>

theorem exit_has_no_floor_witness:
  "(\<exists>d' p'. recordMovement sample_syntax (Some uuid_u1) uuid_m1 1 (sample_form uuid_p1 exit 5)
               (sample_db 200) = (Inr (), d')
        \<and> get_product d' uuid_p1 = Some p' \<and> current_stock p' = - 300)
   \<and> (\<exists>d' p'. recordMovement sample_syntax (Some uuid_u1) uuid_m1 1
                 (sample_dated_form uuid_p1 exit 5 ''2027-01-31'') (sample_db 200) = (Inr (), d')
          \<and> get_product d' uuid_p1 = Some p' \<and> current_stock p' = - 300)
   \<and> recordMovement sample_syntax (Some uuid_u1) uuid_m1 1
        (sample_dated_form uuid_p1 exit 5 ''not-a-date'') (sample_db 200)
       = (Inl InvalidSyntax, sample_db 200)"
proof -
  have run: "\<exists>d' p'. recordMovement sample_syntax (Some uuid_u1) uuid_m1 1 v (sample_db 200)
                = (Inr (), d')
           \<and> get_product d' (f_product_id v) = Some p'
           \<and> current_stock p' = current_stock (sample_product uuid_p1 200 0)
                - round_hundredths (f_quantity v)"
    if "v = sample_form uuid_p1 exit 5 \<or> v = sample_dated_form uuid_p1 exit 5 ''2027-01-31''"
    for v
  proof (rule exit_has_no_floor [where u = uuid_u1])
    show "movementSchema v" "f_type v = exit"
      using that
      by (auto simp: movementSchema_def sample_form_def sample_dated_form_def uuid_p1_def)
    show "is_uuid sample_syntax (f_product_id v)"
      "date_ok sample_syntax (or_null (f_expiration_date v))"
      using that by (auto simp: date_ok_def or_null_def sample_defs)
    show "is_uuid sample_syntax uuid_u1"
      by (simp add: sample_defs)
    show "get_product (sample_db 200) (f_product_id v) = Some (sample_product uuid_p1 200 0)"
      using that by (auto simp: get_product_def sample_db_def sample_product_def
          sample_form_def sample_dated_form_def)
    show "fits (round_hundredths (f_quantity v))"
      "fits (current_stock (sample_product uuid_p1 200 0) - round_hundredths (f_quantity v))"
      using that by (auto simp: fits_def sample_form_def sample_dated_form_def sample_product_def)
    show "may_write (sample_db 200) (Some uuid_u1)"
      "\<not> list_ex (\<lambda>m. m_id m = uuid_m1) (stock_movements (sample_db 200))"
      "products_pk (sample_db 200)"
      by (simp_all add: may_write_def has_role_def products_pk_def sample_db_def)
  qed simp
  have bad: "recordMovement sample_syntax (Some uuid_u1) uuid_m1 1
        (sample_dated_form uuid_p1 exit 5 ''not-a-date'') (sample_db 200)
       = (Inl InvalidSyntax, sample_db 200)"
    by (simp add: run_defs sample_defs)
  from run [of "sample_form uuid_p1 exit 5"]
    run [of "sample_dated_form uuid_p1 exit 5 ''2027-01-31''"] bad
  show ?thesis
    by (simp add: sample_form_def sample_dated_form_def sample_product_def)
qed




text \<open>
  C6, as the specification has it, allows an adjustment of any quantity from zero up and
  an entry or exit of any quantity above zero. An adjustment of 0 is in that range, and the
  form refuses it.
\<close>

theorem validation_bound_counterexample:
  "spec_quantity_allowed adjustment 0
   \<and> recordMovement sample_syntax (Some uuid_u1) uuid_m1 1 (sample_form uuid_p1 adjustment 0) (sample_db 1000)
       = (Inl ValidationError, sample_db 1000)"
  by (simp add: spec_quantity_allowed_def recordMovement_def movementSchema_def sample_form_def)

text \<open>
  C6, amended. \<open>movementSchema\<close> has one bound for the three kinds. For a form with a
  product chosen and texts within their lengths, \<open>recordMovement\<close> fails with
  \<open>ValidationError\<close> exactly when the quantity is below 0.01, whatever the kind.
\<close>

theorem validation_bound:
  assumes "f_product_id v \<noteq> []"
    and "case f_batch_number v of None \<Rightarrow> True | Some b \<Rightarrow> length b \<le> 100"
    and "case f_notes v of None \<Rightarrow> True | Some n \<Rightarrow> length n \<le> 500"
  shows "fst (recordMovement pg user nid now v d) = Inl ValidationError \<longleftrightarrow> f_quantity v < 1 / 100"
proof -
  from assms have "movementSchema v \<longleftrightarrow> 1 / 100 \<le> f_quantity v"
    by (cases "f_product_id v") (simp_all add: movementSchema_def)
  then show ?thesis
    by (auto simp: recordMovement_ValidationError)
qed

text \<open>An entry of 0 is refused and an entry of 0.01 goes through; an exit of 0.005 and an
  adjustment of 0 are refused.\<close>

theorem validation_bound_witness:
  "fst (recordMovement sample_syntax (Some uuid_u1) uuid_m1 1 (sample_form uuid_p1 entry 0) (sample_db 1000))
     = Inl ValidationError
   \<and> fst (recordMovement sample_syntax (Some uuid_u1) uuid_m1 1 (sample_form uuid_p1 entry (1 / 100)) (sample_db 1000))
     = Inr ()
   \<and> fst (recordMovement sample_syntax (Some uuid_u1) uuid_m1 1 (sample_form uuid_p1 exit (1 / 200)) (sample_db 1000))
     = Inl ValidationError
   \<and> fst (recordMovement sample_syntax (Some uuid_u1) uuid_m1 1 (sample_form uuid_p1 adjustment 0) (sample_db 1000))
     = Inl ValidationError"
proof -
  have ok: "f_product_id (sample_form uuid_p1 k q) \<noteq> []"
    "case f_batch_number (sample_form uuid_p1 k q) of None \<Rightarrow> True | Some b \<Rightarrow> length b \<le> 100"
    "case f_notes (sample_form uuid_p1 k q) of None \<Rightarrow> True | Some n \<Rightarrow> length n \<le> 500"
    for k q
    by (simp_all add: sample_form_def uuid_p1_def)
  have q: "f_quantity (sample_form uuid_p1 k q) = q" for k q
    by (simp add: sample_form_def)
  have "fst (recordMovement sample_syntax (Some uuid_u1) uuid_m1 1 (sample_form uuid_p1 entry (1 / 100)) (sample_db 1000))
     = Inr ()"
    by (simp add: run_defs sample_defs)
  then show ?thesis
    using validation_bound [OF ok, of sample_syntax "Some uuid_u1" "uuid_m1" 1 _ _ "sample_db 1000"]
    by (simp add: q)
qed

text \<open>
  C9. The products page shows a product as low (\<open>Baixo\<close>) exactly when its current
  quantity is at or below its minimum, the boundary included, and the low-stock count of
  the dashboard is the number of rows for which that comparison holds. The minimum is no
  floor for movements: running \<open>recordMovement\<close> on the same database with any other
  thresholds gives the same outcome and the same database, thresholds apart.
\<close>

theorem low_stock_threshold:
  "(getStockStatus within_band current minimum = Baixo \<longleftrightarrow> current \<le> minimum)
   \<and> lowStockProducts (Some ps)
       = card {i. i < length ps \<and> current_stock (ps ! i) \<le> minimum_stock (ps ! i)}
   \<and> recordMovement pg user nid now v (with_minimum g d)
       = (fst (recordMovement pg user nid now v d),
          with_minimum g (snd (recordMovement pg user nid now v d)))"
  by (simp add: getStockStatus_def lowStockProducts_def length_filter_conv_card
        recordMovement_with_minimum)

text \<open>A product at 12.00 with a minimum of 10.00: an exit of 5 is accepted, leaves 7.00,
  and the product then counts as low.\<close>

theorem low_stock_threshold_witness:
  "fst (recordMovement sample_syntax (Some uuid_u1) uuid_m1 1 (sample_form uuid_p1 exit 5)
          (with_minimum (\<lambda>_. 1000) (sample_db 1200))) = Inr ()
   \<and> map (\<lambda>p. (current_stock p, minimum_stock p))
        (products (snd (recordMovement sample_syntax (Some uuid_u1) uuid_m1 1 (sample_form uuid_p1 exit 5)
                          (with_minimum (\<lambda>_. 1000) (sample_db 1200)))))
       = [(700, 1000)]
   \<and> getStockStatus (\<lambda>current minimum. current * 2 \<le> minimum * 3) 700 1000 = Baixo
   \<and> lowStockProducts (Some [sample_product uuid_p1 700 1000]) = 1"
proof -
  let ?run = "recordMovement sample_syntax (Some uuid_u1) uuid_m1 1 (sample_form uuid_p1 exit 5) (sample_db 1200)"
  have run: "fst ?run = Inr ()"
    "map (\<lambda>p. (current_stock p, 1000 :: int)) (products (snd ?run)) = [(700, 1000)]"
    by (simp_all add: run_defs sample_defs)
  have "card {i. i < length [sample_product uuid_p1 700 1000]
               \<and> current_stock ([sample_product uuid_p1 700 1000] ! i)
                  \<le> minimum_stock ([sample_product uuid_p1 700 1000] ! i)} = card {0::nat}"
    by (rule arg_cong [where f = card]) (auto simp: sample_product_def)
  with low_stock_threshold [of "\<lambda>current minimum. current * 2 \<le> minimum * 3" 700 1000
      "[sample_product uuid_p1 700 1000]" sample_syntax
      "Some uuid_u1" "uuid_m1" 1 "sample_form uuid_p1 exit 5" "\<lambda>_. 1000" "sample_db 1200"] run
  show ?thesis
    by (simp add: with_minimum_def comp_def)
qed







text \<open>
  C8. Movements are immutable once created. Whatever write the application makes, the
  ledger afterwards is the ledger before, or the ledger before with one new row at its
  end (the two movement dialogs), or the ledger before without the rows of one product,
  and that only when the write was the delete of that product and the product is gone.
  No row is ever altered, and none is removed in any other way.
\<close>

theorem movements_append_only:
  assumes run: "perform is_email pg user nid now op d = (r, d')"
  shows "stock_movements d' = stock_movements d
     \<or> (\<exists>mv. stock_movements d' = stock_movements d @ [mv]
            \<and> ((\<exists>v. op = SaveMovement v) \<or> (\<exists>ty v. op = PackSaveMovement ty v)))
     \<or> (\<exists>pid. (op = DeleteProduct pid \<or> op = PackDeleteProduct pid)
            \<and> list_ex (\<lambda>p. p_id p = pid) (products d)
            \<and> \<not> list_ex (\<lambda>p. p_id p = pid) (products d')
            \<and> stock_movements d' = filter (\<lambda>m. product_id m \<noteq> pid) (stock_movements d))"
proof (cases op)
  case (SaveMovement v)
  show ?thesis
  proof (cases "movementSchema v \<and> user \<noteq> None")
    case True
    then obtain u where "insert_stock_movement pg user nid now (dataToSave_movement u v) d = (r, d')"
      using run SaveMovement by (auto simp: recordMovement_def saveMutation_movement_def)
    from insert_stock_movement_cases [OF this] SaveMovement show ?thesis by auto
  next
    case False
    with run SaveMovement have "d' = d"
      by (auto simp: recordMovement_def saveMutation_movement_def split: if_splits option.splits)
    then show ?thesis by simp
  qed
next
  case (PackSaveMovement ty v)
  show ?thesis
  proof (cases "pack_movementSchema v \<and> user \<noteq> None")
    case True
    then obtain rr where "insert_stock_movement pg user nid now rr d = (r, d')"
      using run PackSaveMovement by (auto simp: pack_handleSubmit_movement_def)
    from insert_stock_movement_cases [OF this] PackSaveMovement show ?thesis by auto
  next
    case False
    with run PackSaveMovement have "d' = d"
      by (auto simp: pack_handleSubmit_movement_def split: if_splits option.splits)
    then show ?thesis by simp
  qed
next
  case (SaveProduct productId v)
  with run have "stock_movements d' = stock_movements d"
    by (auto simp: saveProduct_def saveMutation_product_def update_product_def
          dest: update_product_row_cases insert_product_cases
          split: if_splits sum.splits option.splits)
  then show ?thesis by simp
next
  case (PackSaveProduct product v)
  with run have "stock_movements d' = stock_movements d"
    by (auto simp: pack_handleSubmit_product_def
          dest: update_product_row_cases insert_product_cases
          split: if_splits sum.splits option.splits)
  then show ?thesis by simp
next
  case (DeleteProduct x)
  with run have "deleteProduct pg user x d = (r, d')" by simp
  from deleteProduct_cases [OF this] DeleteProduct show ?thesis
    by (auto simp: list_ex_iff)
next
  case (PackDeleteProduct x)
  with run have "deleteProduct pg user x d = (r, d')" by simp
  from deleteProduct_cases [OF this] PackDeleteProduct show ?thesis
    by (auto simp: list_ex_iff)
next
  case (SaveCategory cid cv)
  with run other_tables_frame(1) show ?thesis by fastforce
next
  case (DeleteCategory c)
  with run other_tables_frame(2) show ?thesis by fastforce
next
  case (SaveSupplier sid sv)
  with run other_tables_frame(3) show ?thesis by fastforce
next
  case (DeleteSupplier s)
  with run other_tables_frame(4) show ?thesis by fastforce
qed

text \<open>An admin deletes \<open>p1\<close>: its six movements go with it. The same request from an
  operator passes no policy and changes nothing.\<close>

theorem movements_append_only_witness:
  "stock_movements (snd (perform (\<lambda>_. True) sample_syntax (Some uuid_a1) uuid_n1 7 (DeleteProduct uuid_p1)
                           sample_admin_db)) = []
   \<and> products (snd (perform (\<lambda>_. True) sample_syntax (Some uuid_a1) uuid_n1 7 (DeleteProduct uuid_p1)
                      sample_admin_db)) = []
   \<and> length (stock_movements sample_admin_db) = 6
   \<and> snd (perform (\<lambda>_. True) sample_syntax (Some uuid_u1) uuid_n1 7 (DeleteProduct uuid_p1) sample_admin_db)
       = sample_admin_db"
proof -
  let ?run = "perform (\<lambda>_. True) sample_syntax (Some uuid_a1) uuid_n1 7 (DeleteProduct uuid_p1) sample_admin_db"
  have ev: "products (snd ?run) = []" "length (stock_movements sample_admin_db) = 6"
    "\<forall>mv \<in> set (stock_movements sample_admin_db). product_id mv = uuid_p1"
    "snd (perform (\<lambda>_. True) sample_syntax (Some uuid_u1) uuid_n1 7 (DeleteProduct uuid_p1) sample_admin_db)
       = sample_admin_db"
    by (simp_all add: deleteProduct_def has_role_def sample_admin_db_def sample_recent_def
          sample_movement_def sample_defs)
  have "?run = (fst ?run, snd ?run)" by simp
  from movements_append_only [OF this]
  have "stock_movements (snd ?run) = stock_movements sample_admin_db
      \<or> stock_movements (snd ?run)
          = filter (\<lambda>m. product_id m \<noteq> uuid_p1) (stock_movements sample_admin_db)"
    by auto
  moreover have "stock_movements (snd ?run) \<noteq> stock_movements sample_admin_db"
    by (simp add: deleteProduct_def has_role_def sample_admin_db_def sample_recent_def
          sample_movement_def sample_defs)
  moreover have "filter (\<lambda>m. product_id m \<noteq> uuid_p1) (stock_movements sample_admin_db) = []"
    using ev(3) by (simp add: filter_empty_conv)
  ultimately show ?thesis using ev by simp
qed

end
